theory Spec2Isabelle
  imports Main
begin

section \<open>Python values and strings\<close>

text \<open>
  A Python \<^verbatim>\<open>str\<close> is modelled as an Isabelle \<^typ>\<open>string\<close>: a list of characters,
  each character being a code point below 256.  Raw documents (the keyword arguments
  given to the entity classes, \<^verbatim>\<open>dict[str, Any]\<close>) are JSON-like values; a dictionary
  is an association list whose first binding of a key is the one that counts.
\<close>

datatype pyval =
    PNone
  | PBool bool
  | PInt int
  | PStr string
  | PList "pyval list"
  | PDict "(string \<times> pyval) list"

type_synonym pydict = "(string \<times> pyval) list"

text \<open>\<^verbatim>\<open>data.get(key)\<close>: the value bound to the key, \<^verbatim>\<open>None\<close> when there is none.\<close>

definition dict_get :: "pydict \<Rightarrow> string \<Rightarrow> pyval" where
  "dict_get data key = (case map_of data key of None \<Rightarrow> PNone | Some v \<Rightarrow> v)"

text \<open>\<^verbatim>\<open>s.startswith(p)\<close>.\<close>

fun startswith :: "string \<Rightarrow> string \<Rightarrow> bool" where
  "startswith s [] = True"
| "startswith [] (p # ps) = False"
| "startswith (c # cs) (p # ps) = (c = p \<and> startswith cs ps)"

text \<open>
  \<^verbatim>\<open>s.split(sep)\<close> for a one-character separator: the pieces between the
  separators, empty pieces included; the result is never empty (the second branch of
  the \<^verbatim>\<open>case\<close> is not reachable).
\<close>

fun str_split :: "char \<Rightarrow> string \<Rightarrow> string list" where
  "str_split sep [] = [[]]"
| "str_split sep (c # cs) =
     (if c = sep then [] # str_split sep cs
      else (case str_split sep cs of
              w # ws \<Rightarrow> (c # w) # ws
            | [] \<Rightarrow> [[c]]))"

text \<open>
  \<^verbatim>\<open>str(x)\<close>, also as an f-string field, of an optional string attribute:
  \<^verbatim>\<open>None\<close> is rendered as the four characters \<^verbatim>\<open>None\<close>.
\<close>

definition py_str :: "string option \<Rightarrow> string" where
  "py_str x = (case x of None \<Rightarrow> ''None'' | Some s \<Rightarrow> s)"

subsection \<open>Integers as text\<close>

text \<open>
  \<^verbatim>\<open>int(s)\<close> in base 10: white space is stripped on both sides, one sign may follow,
  then come decimal digits (the code points 48 to 57), where single underscores may
  stand between two digits.
  Among the code points below 256 the white space of \<^verbatim>\<open>int\<close> is tab, line feed,
  vertical tab, form feed, carriage return, space, NEL (0x85) and the no-break
  space (0xA0).  \<open>int_value\<close> is the integer such a text stands for.

  Python's integers are unbounded, but CPython (3.11, and the later releases of 3.7 to
  3.10) refuses the conversions between \<^verbatim>\<open>int\<close> and \<^verbatim>\<open>str\<close> that have more digits than
  \<^verbatim>\<open>sys.get_int_max_str_digits()\<close>: 4300 unless the interpreter is configured otherwise,
  0 for no limit.  The limit is the parameter \<open>int_max_str_digits\<close>.  A conversion of at
  most 640 characters is never refused.  \<^verbatim>\<open>int(s)\<close> counts the digits of the text, zeros
  in front included, signs, white space and underscores not; \<^verbatim>\<open>str(n)\<close> counts the
  digits of the number.  Both raise \<^verbatim>\<open>ValueError\<close>, here \<open>None\<close>.
\<close>

definition is_digit :: "char \<Rightarrow> bool" where
  "is_digit c = (48 \<le> (of_char c :: nat) \<and> (of_char c :: nat) \<le> 57)"

definition digit_value :: "char \<Rightarrow> nat" where
  "digit_value c = of_char c - 48"

definition is_int_space :: "char \<Rightarrow> bool" where
  "is_int_space c = (of_char c \<in> {9, 10, 11, 12, 13, 32, 133, 160 :: nat})"

fun int_digits :: "nat \<Rightarrow> string \<Rightarrow> nat option" where
  "int_digits acc [] = Some acc"
| "int_digits acc [c] = (if is_digit c then Some (10 * acc + digit_value c) else None)"
| "int_digits acc (c # d # ds) =
     (if is_digit c then int_digits (10 * acc + digit_value c) (d # ds)
      else if c = CHR ''_'' \<and> is_digit d then int_digits (10 * acc + digit_value d) ds
      else None)"

definition int_literal :: "string \<Rightarrow> nat option" where
  "int_literal s =
     (case s of
        [] \<Rightarrow> None
      | c # cs \<Rightarrow> if is_digit c then int_digits (digit_value c) cs else None)"

definition str_strip :: "string \<Rightarrow> string" where
  "str_strip s = rev (dropWhile is_int_space (rev (dropWhile is_int_space s)))"

definition int_value :: "string \<Rightarrow> int option" where
  "int_value s =
     (case str_strip s of
        [] \<Rightarrow> None
      | c # cs \<Rightarrow>
          if c = CHR ''-'' then map_option (\<lambda>n. - int n) (int_literal cs)
          else if c = CHR ''+'' then map_option int (int_literal cs)
          else map_option int (int_literal (c # cs)))"

definition exceeds_max_str_digits :: "nat \<Rightarrow> nat \<Rightarrow> nat \<Rightarrow> bool" where
  "exceeds_max_str_digits int_max_str_digits strlen digits =
     (640 < strlen \<and> 0 < int_max_str_digits \<and> int_max_str_digits < digits)"

definition py_int :: "nat \<Rightarrow> string \<Rightarrow> int option" where
  "py_int int_max_str_digits s =
     (if exceeds_max_str_digits int_max_str_digits (length (filter is_digit s))
           (length (filter is_digit s))
      then None
      else int_value s)"

text \<open>
  \<^verbatim>\<open>str(n)\<close> of an integer, also as a field of an f-string: its decimal digits
  (\<open>int_text\<close>), after a minus sign when negative, unless they are more than the limit.
\<close>

definition digit_char :: "nat \<Rightarrow> char" where
  "digit_char d = ''0123456789'' ! d"

fun nat_digits :: "nat \<Rightarrow> string" where
  "nat_digits n = (if n < 10 then [digit_char n] else nat_digits (n div 10) @ [digit_char (n mod 10)])"

definition int_text :: "int \<Rightarrow> string" where
  "int_text i = (if i < 0 then CHR ''-'' # nat_digits (nat (- i)) else nat_digits (nat i))"

definition str_int :: "nat \<Rightarrow> int \<Rightarrow> string option" where
  "str_int int_max_str_digits i =
     (if exceeds_max_str_digits int_max_str_digits (length (int_text i))
           (length (nat_digits (nat \<bar>i\<bar>)))
      then None
      else Some (int_text i))"

section \<open>Errors\<close>

text \<open>
  A failed validation of one pydantic model: the list of its error details, each a
  location in the document and a kind.
\<close>

datatype loc_item = Key string | Index nat

datatype error_type =
    missing
  | string_type
  | url_type
  | url_parsing
  | list_type
  | model_type
  | value_error string

type_synonym ErrorDetails = "loc_item list \<times> error_type"

datatype ValidationError = ValidationError "ErrorDetails list"

text \<open>
  The exceptions the modelled functions raise.  \<^verbatim>\<open>ValueError\<close> carries its message;
  \<open>ValueError_int\<close> is the \<^verbatim>\<open>ValueError\<close> of \<^verbatim>\<open>int()\<close> on the given literal and
  \<open>ValueError_str\<close> the one of \<^verbatim>\<open>str()\<close> on the given integer;
  \<open>ValueError_instantiate\<close> is the \<^verbatim>\<open>ValueError\<close> of \<^verbatim>\<open>soft_entity\<close>, whose message
  renders the collected validation errors one after the other;
  \<^verbatim>\<open>TypeError\<close> and \<^verbatim>\<open>BackendError\<close> carry their messages.
\<close>

datatype error =
    ValueError string
  | ValueError_int string
  | ValueError_str int
  | ValueError_instantiate "ValidationError list"
  | TypeError string
  | BackendError string
  | NotImplementedError

section \<open>The entity models\<close>

text \<open>
  URL-typed attributes (\<^verbatim>\<open>AnyHttpUrl\<close>) are held as the string \<^verbatim>\<open>str(value)\<close>, which is
  all the code reads of them.
\<close>

text \<open>
  Modelled from the spec: \<^verbatim>\<open>SOFT7Entity\<close>.  The file \<^verbatim>\<open>models/soft7.py\<close> is not among the
  sources.  The specification describes this dialect as a sibling of the SOFT5 one with
  the same identity attributes and other shapes for its properties; the attributes the
  functions below read are listed, the rest of the model is the field \<open>body\<close>.
\<close>

record 'b SOFT7Entity =
  name :: "string option"
  version :: "string option"
  namespace :: "string option"
  uri :: "string option"
  meta :: string
  body :: 'b

record SOFT5Dimension =
  name :: string
  description :: string

record SOFT5Property =
  name :: "string option"
  type_ :: string
  ref :: "string option"
  dims :: "string list option"
  unit :: "string option"
  description :: string

record SOFT5Entity =
  name :: "string option"
  version :: "string option"
  namespace :: "string option"
  uri :: "string option"
  meta :: string
  description :: string
  dimensions :: "SOFT5Dimension list"
  properties :: "SOFT5Property list"

text \<open>\<^verbatim>\<open>VersionedSOFTEntity = SOFT7Entity | SOFT5Entity\<close>, with the attributes both have.\<close>

datatype 'b VersionedSOFTEntity = SOFT7 "'b SOFT7Entity" | SOFT5 SOFT5Entity

fun entity_name :: "'b VersionedSOFTEntity \<Rightarrow> string option" where
  "entity_name (SOFT7 e) = SOFT7Entity.name e"
| "entity_name (SOFT5 e) = SOFT5Entity.name e"

fun entity_version :: "'b VersionedSOFTEntity \<Rightarrow> string option" where
  "entity_version (SOFT7 e) = SOFT7Entity.version e"
| "entity_version (SOFT5 e) = SOFT5Entity.version e"

fun entity_namespace :: "'b VersionedSOFTEntity \<Rightarrow> string option" where
  "entity_namespace (SOFT7 e) = SOFT7Entity.namespace e"
| "entity_namespace (SOFT5 e) = SOFT5Entity.namespace e"

fun entity_uri :: "'b VersionedSOFTEntity \<Rightarrow> string option" where
  "entity_uri (SOFT7 e) = SOFT7Entity.uri e"
| "entity_uri (SOFT5 e) = SOFT5Entity.uri e"

fun entity_meta :: "'b VersionedSOFTEntity \<Rightarrow> string" where
  "entity_meta (SOFT7 e) = SOFT7Entity.meta e"
| "entity_meta (SOFT5 e) = SOFT5Entity.meta e"

section \<open>Identity: \<^verbatim>\<open>URI_REGEX\<close>, \<^verbatim>\<open>get_uri\<close>, \<^verbatim>\<open>get_version\<close>, \<^verbatim>\<open>get_updated_version\<close>\<close>

text \<open>
  \<^verbatim>\<open>URI_REGEX.match(s)\<close> for the pattern
  \<^verbatim>\<open>^(?P<namespace>https?://[^/]+)/(?P<version>[^/]+)/(?P<name>[^/#?]+)$\<close>.
  No class of the pattern admits a slash, so a match is unique and is found by reading
  the string from the left: the scheme \<^verbatim>\<open>http\<close> or \<^verbatim>\<open>https\<close> and \<^verbatim>\<open>://\<close>, a non-empty
  run up to the next slash (with the scheme, the group \<^verbatim>\<open>namespace\<close>), the slash, a
  non-empty run up to the next slash (the group \<^verbatim>\<open>version\<close>), the slash, and a
  non-empty rest without \<^verbatim>\<open>/\<close>, \<^verbatim>\<open>#\<close> and \<^verbatim>\<open>?\<close> (the group \<^verbatim>\<open>name\<close>).  The class of the name
  admits a line feed, so \<^verbatim>\<open>$\<close> is met at the very end of the string.
  The result is the groups of the match, or \<open>None\<close>.
\<close>

record uri_groups =
  group_namespace :: string
  group_version :: string
  group_name :: string

definition uri_scheme :: "string \<Rightarrow> (string \<times> string) option" where
  "uri_scheme s =
     (if startswith s ''https://'' then Some (''https://'', drop 8 s)
      else if startswith s ''http://'' then Some (''http://'', drop 7 s)
      else None)"

definition not_slash :: "char \<Rightarrow> bool" where
  "not_slash c = (c \<noteq> CHR ''/'')"

definition name_char :: "char \<Rightarrow> bool" where
  "name_char c = (c \<noteq> CHR ''/'' \<and> c \<noteq> CHR ''#'' \<and> c \<noteq> CHR ''?'')"

definition URI_REGEX_match :: "string \<Rightarrow> uri_groups option" where
  "URI_REGEX_match s =
     (case uri_scheme s of
        None \<Rightarrow> None
      | Some (scheme, rest) \<Rightarrow>
          let host = takeWhile not_slash rest; after_host = dropWhile not_slash rest in
          if host = [] then None
          else (case after_host of
                  [] \<Rightarrow> None
                | _ # rest2 \<Rightarrow>
                    let ver = takeWhile not_slash rest2; after_ver = dropWhile not_slash rest2 in
                    if ver = [] then None
                    else (case after_ver of
                            [] \<Rightarrow> None
                          | _ # nm \<Rightarrow>
                              if nm \<noteq> [] \<and> list_all name_char nm
                              then Some \<lparr>group_namespace = scheme @ host,
                                         group_version = ver, group_name = nm\<rparr>
                              else None)))"

text \<open>\<^verbatim>\<open>get_uri(entity)\<close>.\<close>

definition get_uri :: "'b VersionedSOFTEntity \<Rightarrow> string" where
  "get_uri entity =
     (case entity_uri entity of
        Some u \<Rightarrow> u
      | None \<Rightarrow> py_str (entity_namespace entity) @ ''/'' @ py_str (entity_version entity)
                  @ ''/'' @ py_str (entity_name entity))"

text \<open>\<^verbatim>\<open>get_version(entity)\<close>.\<close>

definition get_version :: "'b VersionedSOFTEntity \<Rightarrow> error + string" where
  "get_version entity =
     (case entity_version entity of
        Some v \<Rightarrow> Inr v
      | None \<Rightarrow>
          (case URI_REGEX_match (py_str (entity_uri entity)) of
             Some m \<Rightarrow> Inr (group_version m)
           | None \<Rightarrow> Inl (ValueError ''Cannot parse URI to get version.'')))"

text \<open>
  \<^verbatim>\<open>get_updated_version(entity)\<close>, in an interpreter with the given limit on the digits
  of a conversion.
\<close>

definition version_shape_message :: string where
  "version_shape_message =
     ''Cannot parse version to get updated version. Expecting version to be a ''
     @ ''simple MAJOR, MAJOR.MINOR, or MAJOR.MINOR.PATCH styling.''"

definition get_updated_version :: "nat \<Rightarrow> 'b VersionedSOFTEntity \<Rightarrow> error + string" where
  "get_updated_version int_max_str_digits entity =
     (case get_version entity of
        Inl e \<Rightarrow> Inl e
      | Inr current_version \<Rightarrow>
          let split_version = str_split CHR ''.'' current_version in
          if length split_version = 1 then Inr (split_version ! 0 @ ''.1'')
          else if length split_version = 2
          then Inr (split_version ! 0 @ ''.'' @ split_version ! 1 @ ''.1'')
          else if length split_version = 3
          then (case py_int int_max_str_digits (split_version ! 2) of
                  None \<Rightarrow> Inl (ValueError_int (split_version ! 2))
                | Some patch \<Rightarrow>
                    (case str_int int_max_str_digits (patch + 1) of
                       None \<Rightarrow> Inl (ValueError_str (patch + 1))
                     | Some text \<Rightarrow>
                         Inr (split_version ! 0 @ ''.'' @ split_version ! 1 @ ''.'' @ text)))
          else Inl (ValueError version_shape_message))"

text \<open>
  What \<^verbatim>\<open>get_updated_version\<close> refuses of a third piece: a text that \<^verbatim>\<open>int\<close> does not
  read as an integer, one with more digits than the limit, and one whose successor has
  more digits than the limit.
\<close>

definition patch_refused :: "nat \<Rightarrow> string \<Rightarrow> bool" where
  "patch_refused int_max_str_digits patch =
     (int_value patch = None
      \<or> exceeds_max_str_digits int_max_str_digits (length (filter is_digit patch))
           (length (filter is_digit patch))
      \<or> (case int_value patch of
            None \<Rightarrow> False
          | Some i \<Rightarrow> exceeds_max_str_digits int_max_str_digits (length (int_text (i + 1)))
                        (length (nat_digits (nat \<bar>i + 1\<bar>)))))"

subsection \<open>Identities\<close>

text \<open>
  The parts of an identity, as texts.  \<open>is_http_url\<close> is the shape of an absolute URL
  of scheme \<^verbatim>\<open>http\<close> or \<^verbatim>\<open>https\<close>: the scheme, \<^verbatim>\<open>://\<close>, a non-empty host, and whatever
  follows the host from its first slash on.  \<open>valid_identity\<close> is such a namespace
  that does not end with a slash, with a version and a name that are not empty and
  have no slash.
\<close>

definition is_http_url :: "string \<Rightarrow> bool" where
  "is_http_url s =
     (case uri_scheme s of None \<Rightarrow> False | Some (scheme, rest) \<Rightarrow> takeWhile not_slash rest \<noteq> [])"

definition valid_identity :: "string \<Rightarrow> string \<Rightarrow> string \<Rightarrow> bool" where
  "valid_identity ns v n =
     (is_http_url ns \<and> last ns \<noteq> CHR ''/'' \<and> v \<noteq> [] \<and> list_all not_slash v
      \<and> n \<noteq> [] \<and> list_all not_slash n)"

text \<open>
  A SOFT5 entity with the given name, version, namespace and uri, the default of
  every other field and no properties.
\<close>

definition soft5_with ::
  "string option \<Rightarrow> string option \<Rightarrow> string option \<Rightarrow> string option \<Rightarrow> unit VersionedSOFTEntity" where
  "soft5_with n v ns u =
     SOFT5 \<lparr>name = n, version = v, namespace = ns, uri = u, meta = ''http://onto-ns.com/meta/0.3/EntitySchema'',
            description = [], dimensions = [], properties = []\<rparr>"

section \<open>Validation of the SOFT5 models\<close>

text \<open>
  \<^verbatim>\<open>CONFIG\<close>, the service settings; \<open>base_url\<close> holds \<^verbatim>\<open>str(CONFIG.base_url)\<close>, the only
  setting the models read.
\<close>

record ServiceSettings =
  base_url :: string
  mongo_uri :: string
  mongo_user :: "string option"
  mongo_password :: "string option"

definition default_settings :: ServiceSettings where
  "default_settings =
     \<lparr>base_url = ''http://onto-ns.com/meta'', mongo_uri = ''mongodb://localhost:27017'',
      mongo_user = None, mongo_password = None\<rparr>"

text \<open>
  The outcome of validating one value: the value, or the error details found.  The
  fields of a model are validated one after the other and all their errors are kept
  (\<open>ap\<close>); \<open>at_loc\<close> puts the place of a field or list item in front of the locations.
\<close>

type_synonym 'a validated = "ErrorDetails list + 'a"

definition ap :: "('a \<Rightarrow> 'b) validated \<Rightarrow> 'a validated \<Rightarrow> 'b validated" where
  "ap f x =
     (case f of
        Inr g \<Rightarrow> (case x of Inr v \<Rightarrow> Inr (g v) | Inl es \<Rightarrow> Inl es)
      | Inl es \<Rightarrow> (case x of Inr v \<Rightarrow> Inl es | Inl es' \<Rightarrow> Inl (es @ es')))"

definition at_loc :: "loc_item \<Rightarrow> 'a validated \<Rightarrow> 'a validated" where
  "at_loc l r = (case r of Inl es \<Rightarrow> Inl (map (\<lambda>(loc, t). (l # loc, t)) es) | Inr v \<Rightarrow> Inr v)"

text \<open>
  A field of a model: when the document has no binding for the key (the field's
  alias, if it has one), the default is taken as it is, or the field is reported missing;
  otherwise the bound value is validated.
\<close>

definition required :: "string \<Rightarrow> 'a validated" where
  "required key = Inl [([Key key], missing)]"

definition field :: "pydict \<Rightarrow> string \<Rightarrow> 'a validated \<Rightarrow> (pyval \<Rightarrow> 'a validated) \<Rightarrow> 'a validated" where
  "field data key dflt validate =
     (case map_of data key of None \<Rightarrow> dflt | Some v \<Rightarrow> at_loc (Key key) (validate v))"

text \<open>The annotations \<^verbatim>\<open>str\<close>, \<^verbatim>\<open>T | None\<close>, \<^verbatim>\<open>list[T]\<close> and \<^verbatim>\<open>AnyHttpUrl\<close>.\<close>

definition validate_str :: "pyval \<Rightarrow> string validated" where
  "validate_str v = (case v of PStr s \<Rightarrow> Inr s | _ \<Rightarrow> Inl [([], string_type)])"

definition validate_optional :: "(pyval \<Rightarrow> 'a validated) \<Rightarrow> pyval \<Rightarrow> 'a option validated" where
  "validate_optional validate v =
     (case v of PNone \<Rightarrow> Inr None | _ \<Rightarrow> ap (Inr Some) (validate v))"

fun validate_items :: "(pyval \<Rightarrow> 'a validated) \<Rightarrow> nat \<Rightarrow> pyval list \<Rightarrow> 'a list validated" where
  "validate_items validate i [] = Inr []"
| "validate_items validate i (x # xs) =
     ap (ap (Inr (#)) (at_loc (Index i) (validate x))) (validate_items validate (Suc i) xs)"

definition validate_list :: "(pyval \<Rightarrow> 'a validated) \<Rightarrow> pyval \<Rightarrow> 'a list validated" where
  "validate_list validate v =
     (case v of PList xs \<Rightarrow> validate_items validate 0 xs | _ \<Rightarrow> Inl [([], list_type)])"

text \<open>
  \<^verbatim>\<open>AnyHttpUrl\<close> is pydantic's: the parameter \<open>url\<close> stands for its parser, giving
  \<^verbatim>\<open>str\<close> of the parsed URL for a string it accepts and \<open>None\<close> for one it rejects.
\<close>

definition validate_url :: "(string \<Rightarrow> string option) \<Rightarrow> pyval \<Rightarrow> string validated" where
  "validate_url url v =
     (case v of
        PStr s \<Rightarrow> (case url s of Some u \<Rightarrow> Inr u | None \<Rightarrow> Inl [([], url_parsing)])
      | _ \<Rightarrow> Inl [([], url_type)])"

text \<open>
  A \<^verbatim>\<open>field_validator\<close> runs on the value the annotation has accepted; the
  \<^verbatim>\<open>ValueError\<close> it raises becomes an error detail of the field.
\<close>

definition field_validator :: "('a \<Rightarrow> string + 'a) \<Rightarrow> 'a validated \<Rightarrow> 'a validated" where
  "field_validator f r =
     (case r of
        Inl es \<Rightarrow> Inl es
      | Inr v \<Rightarrow> (case f v of Inl msg \<Rightarrow> Inl [([], value_error msg)] | Inr v' \<Rightarrow> Inr v'))"

text \<open>\<^verbatim>\<open>SOFT5Dimension(**v)\<close> and \<^verbatim>\<open>SOFT5Property(**v)\<close> for an item \<open>v\<close> of a list.\<close>

definition SOFT5Dimension_validate :: "pyval \<Rightarrow> SOFT5Dimension validated" where
  "SOFT5Dimension_validate v =
     (case v of
        PDict data \<Rightarrow>
          ap (ap (Inr (\<lambda>n d. \<lparr>SOFT5Dimension.name = n, SOFT5Dimension.description = d\<rparr>))
               (field data ''name'' (required ''name'') validate_str))
             (field data ''description'' (required ''description'') validate_str)
      | _ \<Rightarrow> Inl [([], model_type)])"

definition SOFT5Property_validate :: "(string \<Rightarrow> string option) \<Rightarrow> pyval \<Rightarrow> SOFT5Property validated" where
  "SOFT5Property_validate url v =
     (case v of
        PDict data \<Rightarrow>
          ap (ap (ap (ap (ap (ap
            (Inr (\<lambda>n t r ds u d.
               \<lparr>SOFT5Property.name = n, type_ = t, ref = r, dims = ds, unit = u,
                SOFT5Property.description = d\<rparr>))
            (field data ''name'' (Inr None) (validate_optional validate_str)))
            (field data ''type'' (required ''type'') validate_str))
            (field data ''$ref'' (Inr None) (validate_optional (validate_url url))))
            (field data ''dims'' (Inr None) (validate_optional (validate_list validate_str))))
            (field data ''unit'' (Inr None) (validate_optional validate_str)))
            (field data ''description'' (required ''description'') validate_str)
      | _ \<Rightarrow> Inl [([], model_type)])"

text \<open>
  The validators of \<^verbatim>\<open>SOFT5Entity\<close>: \<^verbatim>\<open>_validate_base_url\<close>, \<^verbatim>\<open>_only_support_onto_ns\<close>
  and \<^verbatim>\<open>_check_cross_dependent_fields\<close> (the names without their leading underscore).
  The first one is given what the annotation \<^verbatim>\<open>AnyHttpUrl | None\<close> accepted, so
  \<^verbatim>\<open>None\<close> too.
\<close>

definition EntitySchema_uri :: string where
  "EntitySchema_uri = ''http://onto-ns.com/meta/0.3/EntitySchema''"

definition validate_base_url :: "ServiceSettings \<Rightarrow> string option \<Rightarrow> string + string option" where
  "validate_base_url CONFIG value =
     (if \<not> startswith (py_str value) (base_url CONFIG)
      then Inl (''This service only works with DLite/SOFT entities at '' @ base_url CONFIG @ ''.'')
      else Inr value)"

definition only_support_onto_ns :: "string \<Rightarrow> string + string" where
  "only_support_onto_ns value =
     (if value \<noteq> EntitySchema_uri
      then Inl (''This service only works with DLite/SOFT entities using EntitySchema ''
                @ ''v0.3 at onto-ns.com as the metadata entity.'')
      else Inr value)"

definition check_cross_dependent_fields :: "pydict \<Rightarrow> string + pydict" where
  "check_cross_dependent_fields data =
     (if list_ex (\<lambda>k. dict_get data k = PNone) [''name'', ''version'', ''namespace'']
      then (if \<not> list_all (\<lambda>k. dict_get data k = PNone) [''name'', ''version'', ''namespace'']
            then Inl (''Either all of `name`, `version`, and `namespace` must be set ''
                      @ ''or all must be unset.'')
            else Inr data)
      else Inr data)"

text \<open>
  \<^verbatim>\<open>SOFT5Entity(**data)\<close>: the model validator of mode \<^verbatim>\<open>before\<close> sees the raw
  document first and its \<^verbatim>\<open>ValueError\<close> ends the validation; then the fields are
  validated in the order of their declaration.  The default of \<open>meta\<close> is the URL
  \<^verbatim>\<open>http://onto-ns.com/meta/0.3/EntitySchema\<close>, whose \<^verbatim>\<open>str\<close> is that same text.
\<close>

definition SOFT5Entity_fields ::
  "(string \<Rightarrow> string option) \<Rightarrow> ServiceSettings \<Rightarrow> pydict \<Rightarrow> SOFT5Entity validated" where
  "SOFT5Entity_fields url CONFIG data =
     ap (ap (ap (ap (ap (ap (ap (ap
       (Inr (\<lambda>n v ns u m d dms ps.
          \<lparr>name = n, version = v, namespace = ns, uri = u, meta = m, description = d,
           dimensions = dms, properties = ps\<rparr>))
       (field data ''name'' (Inr None) (validate_optional validate_str)))
       (field data ''version'' (Inr None) (validate_optional validate_str)))
       (field data ''namespace'' (Inr None)
          (\<lambda>v. field_validator (validate_base_url CONFIG) (validate_optional (validate_url url) v))))
       (field data ''uri'' (Inr None)
          (\<lambda>v. field_validator (validate_base_url CONFIG) (validate_optional (validate_url url) v))))
       (field data ''meta'' (Inr EntitySchema_uri)
          (\<lambda>v. field_validator only_support_onto_ns (validate_url url v))))
       (field data ''description'' (Inr []) validate_str))
       (field data ''dimensions'' (Inr []) (validate_list SOFT5Dimension_validate)))
       (field data ''properties'' (required ''properties'')
          (validate_list (SOFT5Property_validate url)))"

definition SOFT5Entity_validate ::
  "(string \<Rightarrow> string option) \<Rightarrow> ServiceSettings \<Rightarrow> pydict \<Rightarrow> ValidationError + SOFT5Entity" where
  "SOFT5Entity_validate url CONFIG data =
     (case check_cross_dependent_fields data of
        Inl msg \<Rightarrow> Inl (ValidationError [([], value_error msg)])
      | Inr data' \<Rightarrow>
          (case SOFT5Entity_fields url CONFIG data' of
             Inl es \<Rightarrow> Inl (ValidationError es)
           | Inr entity \<Rightarrow> Inr entity))"

section \<open>The resolver \<^verbatim>\<open>soft_entity\<close>\<close>

text \<open>
  \<^verbatim>\<open>soft_entity(return_errors=..., **kwargs)\<close>.  The classes of
  \<^verbatim>\<open>get_args(VersionedSOFTEntity)\<close> are tried in their order, \<^verbatim>\<open>SOFT7Entity\<close> before
  \<^verbatim>\<open>SOFT5Entity\<close>; the validation of \<^verbatim>\<open>SOFT7Entity\<close>, whose file is not among the sources,
  is the parameter \<open>S7\<close>.  The result is the new object or the list of the errors.
\<close>

datatype 'b soft_entity_result = Entity "'b VersionedSOFTEntity" | Errors "ValidationError list"

definition versioned_entity_classes ::
  "(pydict \<Rightarrow> ValidationError + 'b SOFT7Entity) \<Rightarrow> (string \<Rightarrow> string option) \<Rightarrow> ServiceSettings
   \<Rightarrow> (pydict \<Rightarrow> ValidationError + 'b VersionedSOFTEntity) list" where
  "versioned_entity_classes S7 url CONFIG =
     [\<lambda>kwargs. map_sum id SOFT7 (S7 kwargs),
      \<lambda>kwargs. map_sum id SOFT5 (SOFT5Entity_validate url CONFIG kwargs)]"

fun try_classes ::
  "(pydict \<Rightarrow> ValidationError + 'e) list \<Rightarrow> pydict \<Rightarrow> ValidationError list
   \<Rightarrow> ValidationError list + 'e" where
  "try_classes [] kwargs errors = Inl errors"
| "try_classes (versioned_entity_cls # rest) kwargs errors =
     (case versioned_entity_cls kwargs of
        Inr new_object \<Rightarrow> Inr new_object
      | Inl exc \<Rightarrow> try_classes rest kwargs (errors @ [exc]))"

definition soft_entity ::
  "(pydict \<Rightarrow> ValidationError + 'b SOFT7Entity) \<Rightarrow> (string \<Rightarrow> string option) \<Rightarrow> ServiceSettings
   \<Rightarrow> bool \<Rightarrow> pydict \<Rightarrow> error + 'b soft_entity_result" where
  "soft_entity S7 url CONFIG return_errors kwargs =
     (case try_classes (versioned_entity_classes S7 url CONFIG) kwargs [] of
        Inr new_object \<Rightarrow> Inr (Entity new_object)
      | Inl errors \<Rightarrow>
          if return_errors then Inr (Errors errors)
          else Inl (ValueError_instantiate errors))"

text \<open>
  What the validators of a dialect ask of an entity: the \<open>uri\<close> and the \<open>namespace\<close>,
  when they are set, start with the base URL of the service, and \<open>meta\<close> is the URI of
  the one schema supported.
\<close>

definition dialect_invariant :: "ServiceSettings \<Rightarrow> 'b VersionedSOFTEntity \<Rightarrow> bool" where
  "dialect_invariant CONFIG entity =
     ((case entity_uri entity of None \<Rightarrow> True | Some u \<Rightarrow> startswith u (base_url CONFIG))
      \<and> (case entity_namespace entity of None \<Rightarrow> True | Some ns \<Rightarrow> startswith ns (base_url CONFIG))
      \<and> entity_meta entity = EntitySchema_uri)"

text \<open>
  Values to apply the properties to.  \<open>soft7_stand_in\<close> takes the place of the
  validation of \<^verbatim>\<open>SOFT7Entity\<close>: it accepts the documents whose \<^verbatim>\<open>properties\<close> is an empty
  dictionary, and sets no identity attribute.  \<open>mixed_document\<close> has a \<open>uri\<close> that names
  version 1.0 and name A, next to the name B, the version 2.0 and a namespace;
  \<open>mixed_entity\<close> is the SOFT5 entity with these fields.
\<close>

definition soft7_stand_in :: "pydict \<Rightarrow> ValidationError + unit SOFT7Entity" where
  "soft7_stand_in data =
     (if map_of data ''properties'' = Some (PDict [])
      then Inr \<lparr>SOFT7Entity.name = None, SOFT7Entity.version = None,
                SOFT7Entity.namespace = None, SOFT7Entity.uri = None,
                SOFT7Entity.meta = EntitySchema_uri, body = ()\<rparr>
      else Inl (ValidationError [([Key ''properties''], model_type)]))"

definition mixed_document :: pydict where
  "mixed_document =
     [(''uri'', PStr ''http://onto-ns.com/meta/1.0/A''),
      (''name'', PStr ''B''), (''version'', PStr ''2.0''),
      (''namespace'', PStr ''http://onto-ns.com/meta''),
      (''properties'', PList [PDict [(''type'', PStr ''int''), (''description'', PStr ''a number'')]])]"

definition mixed_entity :: SOFT5Entity where
  "mixed_entity =
     \<lparr>name = Some ''B'', version = Some ''2.0'', namespace = Some ''http://onto-ns.com/meta'',
      uri = Some ''http://onto-ns.com/meta/1.0/A'', meta = EntitySchema_uri, description = [],
      dimensions = [],
      properties = [\<lparr>SOFT5Property.name = None, type_ = ''int'', ref = None, dims = None,
                     unit = None, SOFT5Property.description = ''a number''\<rparr>]\<rparr>"

section \<open>The backend\<close>

text \<open>
  An instance of \<^verbatim>\<open>Backend\<close>: its attributes \<^verbatim>\<open>_settings\<close> and \<^verbatim>\<open>_is_closed\<close>, and the
  name of its class.  The abstract methods belong to the storage engines; \<^verbatim>\<open>read\<close>,
  which \<^verbatim>\<open>__contains__\<close> calls, is a parameter: the record found, \<open>None\<close>, or an error.
\<close>

record 's Backend =
  class_name :: string
  attr_settings :: 's
  attr_is_closed :: bool

definition Backend_init :: "string \<Rightarrow> 's \<Rightarrow> 's Backend" where
  "Backend_init cls settings = \<lparr>class_name = cls, attr_settings = settings, attr_is_closed = False\<rparr>"

definition is_closed :: "'s Backend \<Rightarrow> bool" where
  "is_closed self = attr_is_closed self"

text \<open>\<^verbatim>\<open>close()\<close>: what the call does (it returns or raises) and the instance afterwards.\<close>

definition close :: "'s Backend \<Rightarrow> (error + unit) \<times> 's Backend" where
  "close self =
     (if is_closed self then (Inl (BackendError ''Backend is already closed''), self)
      else (Inr (), self\<lparr>attr_is_closed := True\<rparr>))"

text \<open>
  \<^verbatim>\<open>item in backend\<close>.  An item is any Python value: a raw one or an entity model.
  The call \<^verbatim>\<open>soft_entity(return_errors=True, **item)\<close> binds \<^verbatim>\<open>return_errors\<close> twice
  when the dictionary has that key, which is a \<^verbatim>\<open>TypeError\<close>.  The log record
  written for a malformed item is not part of the model.
\<close>

text \<open>
  Modelled from the spec: \<^verbatim>\<open>SOFTModelTypes\<close>, which the backend imports and the sources
  do not define.  The specification has a typed entity looked up by its identity, so an
  item is of these types exactly when it is an entity of one of the two classes.
\<close>

datatype 'b item = Raw pyval | Typed "'b VersionedSOFTEntity"

definition multiple_values_message :: string where
  "multiple_values_message =
     ''soft_entity() got multiple values for keyword argument 'return_errors'' @ [CHR 0x27]"

definition soft_entity_return_errors ::
  "(pydict \<Rightarrow> ValidationError + 'b SOFT7Entity) \<Rightarrow> (string \<Rightarrow> string option) \<Rightarrow> ServiceSettings
   \<Rightarrow> pydict \<Rightarrow> error + 'b soft_entity_result" where
  "soft_entity_return_errors S7 url CONFIG item =
     (if map_of item ''return_errors'' \<noteq> None
      then Inl (TypeError multiple_values_message)
      else soft_entity S7 url CONFIG True item)"

definition read_is_not_None :: "(string \<Rightarrow> error + pydict option) \<Rightarrow> string \<Rightarrow> error + bool" where
  "read_is_not_None read entity_identity =
     (case read entity_identity of Inl e \<Rightarrow> Inl e | Inr found \<Rightarrow> Inr (found \<noteq> None))"

definition Backend_contains ::
  "(pydict \<Rightarrow> ValidationError + 'b SOFT7Entity) \<Rightarrow> (string \<Rightarrow> string option) \<Rightarrow> ServiceSettings
   \<Rightarrow> (string \<Rightarrow> error + pydict option) \<Rightarrow> 'b item \<Rightarrow> error + bool" where
  "Backend_contains S7 url CONFIG read item =
     (case (case item of
              Raw (PDict d) \<Rightarrow>
                (case soft_entity_return_errors S7 url CONFIG d of
                   Inl e \<Rightarrow> Inl e
                 | Inr (Errors item_or_errors) \<Rightarrow> Inr (Inl False)
                 | Inr (Entity item_or_errors) \<Rightarrow> Inr (Inr (Typed item_or_errors)))
            | _ \<Rightarrow> Inr (Inr item)) of
        Inl e \<Rightarrow> Inl e
      | Inr (Inl returned) \<Rightarrow> Inr returned
      | Inr (Inr item') \<Rightarrow>
          (case item' of
             Raw (PStr s) \<Rightarrow> read_is_not_None read s
           | Typed entity \<Rightarrow> read_is_not_None read (get_uri entity)
           | _ \<Rightarrow> Inr False))"

text \<open>
  A \<^verbatim>\<open>read\<close> to apply the properties to: the store holds one record, under the
  identity \<^verbatim>\<open>http://onto-ns.com/meta/1.0/A\<close>.
\<close>

definition read_one_record :: "string \<Rightarrow> error + pydict option" where
  "read_one_record entity_identity =
     (if entity_identity = ''http://onto-ns.com/meta/1.0/A'' then Inr (Some mixed_document)
      else Inr None)"

text \<open>
  The operations of an instance as \<^verbatim>\<open>Backend\<close> has them, and a run of them: each call
  gives what it returns or raises, and the instance afterwards.  \<open>Abstract\<close> is any of
  the methods that \<^verbatim>\<open>Backend\<close> declares abstract (\<^verbatim>\<open>initialize\<close>, \<^verbatim>\<open>create\<close>, \<^verbatim>\<open>read\<close>,
  \<^verbatim>\<open>update\<close>, \<^verbatim>\<open>delete\<close>, \<^verbatim>\<open>search\<close>, \<^verbatim>\<open>count\<close>, \<^verbatim>\<open>__iter__\<close>, \<^verbatim>\<open>__len__\<close>,
  \<^verbatim>\<open>write_access_exception\<close>), named by the string: its body in \<^verbatim>\<open>Backend\<close> raises
  \<^verbatim>\<open>NotImplementedError\<close>.  What a storage engine puts in their place is not in the
  sources.
\<close>

datatype 'b operation = Contains "'b item" | Is_closed | Close | Str | Repr | Abstract string

datatype returned = RNone | RBool bool | RStr string

definition call ::
  "(pydict \<Rightarrow> ValidationError + 'b SOFT7Entity) \<Rightarrow> (string \<Rightarrow> string option) \<Rightarrow> ServiceSettings
   \<Rightarrow> (string \<Rightarrow> error + pydict option) \<Rightarrow> 'b operation \<Rightarrow> 's Backend
   \<Rightarrow> (error + returned) \<times> 's Backend" where
  "call S7 url CONFIG read operation self =
     (case operation of
        Contains item \<Rightarrow> (map_sum id RBool (Backend_contains S7 url CONFIG read item), self)
      | Is_closed \<Rightarrow> (Inr (RBool (is_closed self)), self)
      | Close \<Rightarrow> (map_sum id (\<lambda>_. RNone) (fst (close self)), snd (close self))
      | Str \<Rightarrow> (Inr (RStr (class_name self)), self)
      | Repr \<Rightarrow> (Inr (RStr (''<'' @ class_name self @ ''>'')), self)
      | Abstract method \<Rightarrow> (Inl NotImplementedError, self))"

fun run ::
  "(pydict \<Rightarrow> ValidationError + 'b SOFT7Entity) \<Rightarrow> (string \<Rightarrow> string option) \<Rightarrow> ServiceSettings
   \<Rightarrow> (string \<Rightarrow> error + pydict option) \<Rightarrow> 'b operation list \<Rightarrow> 's Backend \<Rightarrow> 's Backend" where
  "run S7 url CONFIG read [] self = self"
| "run S7 url CONFIG read (operation # operations) self =
     run S7 url CONFIG read operations (snd (call S7 url CONFIG read operation self))"

section \<open>Properties\<close>

text \<open>The recursion of \<open>nat_digits\<close> is unfolded by hand where it is needed.\<close>

declare nat_digits.simps [simp del]

subsection \<open>Splitting\<close>

lemma str_split_not_Nil: "str_split sep s \<noteq> []"
  by (induction s) (auto split: list.splits)

lemma str_split_no_sep: "sep \<notin> set s \<Longrightarrow> str_split sep s = [s]"
  by (induction s) auto

lemma str_split_append: "sep \<notin> set a \<Longrightarrow> str_split sep (a @ sep # r) = a # str_split sep r"
  by (induction a) auto

lemma length_str_split: "length (str_split sep s) = Suc (length (filter (\<lambda>c. c = sep) s))"
  by (induction s) (auto split: list.splits simp: str_split_not_Nil)

lemma str_split_one: "str_split sep s = [a] \<Longrightarrow> s = a"
  by (induction s arbitrary: a) (auto split: if_splits list.splits simp: str_split_not_Nil)

lemma str_split_Cons:
  "str_split sep s = a # b # ws \<Longrightarrow>
   s = a @ sep # drop (Suc (length a)) s \<and> str_split sep (drop (Suc (length a)) s) = b # ws"
  by (induction s arbitrary: a) (auto split: if_splits list.splits)

lemma str_split_two: "str_split sep s = [a, b] \<Longrightarrow> s = a @ sep # b"
  using str_split_Cons[of sep s a b "[]"] str_split_one by metis

lemma length_one: "length xs = 1 \<Longrightarrow> \<exists>a. xs = [a]"
  by (cases xs) auto

lemma length_two: "length xs = 2 \<Longrightarrow> \<exists>a b. xs = [a, b]"
  by (cases xs; cases "tl xs") auto

lemma length_three: "length xs = 3 \<Longrightarrow> \<exists>a b c. xs = [a, b, c]"
  by (cases xs; cases "tl xs"; cases "tl (tl xs)") auto

subsection \<open>Integers as text\<close>

lemma digit_char_is_digit: "d < 10 \<Longrightarrow> is_digit (digit_char d)"
proof -
  assume "d < 10"
  then have "d \<in> {0,1,2,3,4,5,6,7,8,9}" by auto
  then show ?thesis by (auto simp: is_digit_def digit_char_def)
qed

lemma digit_value_digit_char: "d < 10 \<Longrightarrow> digit_value (digit_char d) = d"
proof -
  assume "d < 10"
  then have "d \<in> {0,1,2,3,4,5,6,7,8,9}" by auto
  then show ?thesis by (auto simp: digit_value_def digit_char_def)
qed

lemma is_digit_not_space: "is_digit c \<Longrightarrow> \<not> is_int_space c"
  by (auto simp: is_digit_def is_int_space_def)

lemma is_digit_not_sign: "is_digit c \<Longrightarrow> c \<noteq> CHR ''-'' \<and> c \<noteq> CHR ''+''"
  by (auto simp: is_digit_def)

lemma nat_digits_all: "list_all is_digit (nat_digits n)"
  by (induction n rule: nat_digits.induct) (subst nat_digits.simps, auto simp: digit_char_is_digit)

lemma nat_digits_not_Nil: "nat_digits n \<noteq> []"
  by (subst nat_digits.simps) auto

lemma int_digits_snoc:
  "list_all is_digit ds \<Longrightarrow> is_digit c \<Longrightarrow>
   int_digits acc (ds @ [c]) = map_option (\<lambda>a. 10 * a + digit_value c) (int_digits acc ds)"
  by (induction acc ds rule: int_digits.induct) auto

lemma int_literal_snoc:
  "list_all is_digit ds \<Longrightarrow> ds \<noteq> [] \<Longrightarrow> is_digit c \<Longrightarrow>
   int_literal (ds @ [c]) = map_option (\<lambda>a. 10 * a + digit_value c) (int_literal ds)"
  by (cases ds) (auto simp: int_literal_def int_digits_snoc)

lemma int_literal_nat_digits: "int_literal (nat_digits n) = Some n"
proof (induction n rule: nat_digits.induct)
  case (1 n)
  show ?case
  proof (cases "n < 10")
    case True
    then show ?thesis
      by (subst nat_digits.simps) (simp add: int_literal_def digit_char_is_digit digit_value_digit_char)
  next
    case False
    then have "int_literal (nat_digits (n div 10)) = Some (n div 10)" using 1 by simp
    then show ?thesis using False
      by (subst nat_digits.simps)
         (simp add: int_literal_snoc nat_digits_all nat_digits_not_Nil digit_char_is_digit digit_value_digit_char)
  qed
qed

lemma str_strip_digits: "list_all is_digit ds \<Longrightarrow> str_strip ds = ds"
proof -
  assume a: "list_all is_digit ds"
  have 1: "dropWhile is_int_space ds = ds"
    using a by (cases ds) (auto simp: is_digit_not_space)
  have "list_all is_digit (rev ds)" using a by (simp add: list_all_iff)
  then have 2: "dropWhile is_int_space (rev ds) = rev ds"
    by (cases "rev ds") (auto simp: is_digit_not_space)
  show ?thesis by (simp add: str_strip_def 1 2)
qed

lemma int_value_nat_digits: "int_value (nat_digits n) = Some (int n)"
proof -
  obtain c cs where e: "nat_digits n = c # cs"
    using nat_digits_not_Nil by (cases "nat_digits n") auto
  have "is_digit c" using nat_digits_all[of n] e by simp
  then have "c \<noteq> CHR ''-''" "c \<noteq> CHR ''+''" using is_digit_not_sign by auto
  moreover have "str_strip (nat_digits n) = c # cs"
    using str_strip_digits[OF nat_digits_all, of n] e by simp
  ultimately show ?thesis using e int_literal_nat_digits[of n]
    by (simp add: int_value_def)
qed

lemma nat_digits_no_dot: "CHR ''.'' \<notin> set (nat_digits n)"
proof
  assume "CHR ''.'' \<in> set (nat_digits n)"
  then have "is_digit CHR ''.''" using nat_digits_all[of n] by (simp add: list_all_iff)
  then show False by (simp add: is_digit_def)
qed

text \<open>The limit on the digits of a conversion.\<close>

lemma filter_digits_all: "list_all is_digit ds \<Longrightarrow> filter is_digit ds = ds"
  by (induction ds) auto

lemma py_int_within:
  "\<not> exceeds_max_str_digits m (length (filter is_digit s)) (length (filter is_digit s)) \<Longrightarrow>
   py_int m s = int_value s"
  by (simp add: py_int_def)

lemma py_int_None_iff:
  "py_int m s = None \<longleftrightarrow>
     int_value s = None
     \<or> exceeds_max_str_digits m (length (filter is_digit s)) (length (filter is_digit s))"
  by (simp add: py_int_def)

lemma py_int_Some: "py_int m s = Some p \<Longrightarrow> int_value s = Some p"
  by (simp add: py_int_def split: if_splits)

lemma str_int_Some: "str_int m i = Some t \<Longrightarrow> t = int_text i"
  by (auto simp: str_int_def split: if_splits)

lemma str_int_None_iff:
  "str_int m i = None \<longleftrightarrow>
     exceeds_max_str_digits m (length (int_text i)) (length (nat_digits (nat \<bar>i\<bar>)))"
  by (simp add: str_int_def)

lemma no_limit: "\<not> exceeds_max_str_digits 0 strlen digits"
  by (simp add: exceeds_max_str_digits_def)

lemma short_never_exceeds: "strlen \<le> 640 \<Longrightarrow> \<not> exceeds_max_str_digits m strlen digits"
  by (simp add: exceeds_max_str_digits_def)

lemma within_limit: "m = 0 \<or> digits \<le> m \<Longrightarrow> \<not> exceeds_max_str_digits m strlen digits"
  by (auto simp: exceeds_max_str_digits_def)

lemma int_text_nat: "int_text (int n) = nat_digits n"
  by (simp add: int_text_def)

lemma length_nat_digits_mono: "m \<le> n \<Longrightarrow> length (nat_digits m) \<le> length (nat_digits n)"
proof (induction n arbitrary: m rule: nat_digits.induct)
  case (1 n)
  show ?case
  proof (cases "n < 10")
    case True
    with 1(2) have "m < 10" by simp
    with True show ?thesis by (simp add: nat_digits.simps[of m] nat_digits.simps[of n])
  next
    case False
    show ?thesis
    proof (cases "m < 10")
      case True
      with False show ?thesis by (simp add: nat_digits.simps[of m] nat_digits.simps[of n])
    next
      case m: False
      have "m div 10 \<le> n div 10" using 1(2) by (simp add: div_le_mono)
      from 1(1)[OF False this] show ?thesis
        using False m by (simp add: nat_digits.simps[of m] nat_digits.simps[of n])
    qed
  qed
qed

lemma py_int_nat_digits:
  "m = 0 \<or> length (nat_digits n) \<le> m \<Longrightarrow> py_int m (nat_digits n) = Some (int n)"
  using within_limit[of m "length (nat_digits n)"]
  by (simp add: py_int_def filter_digits_all nat_digits_all int_value_nat_digits)

lemma str_int_nat:
  "m = 0 \<or> length (nat_digits n) \<le> m \<Longrightarrow> str_int m (int n) = Some (nat_digits n)"
  using within_limit[of m "length (nat_digits n)"]
  by (simp add: str_int_def int_text_nat)

lemma power_ten_ge: "(10::nat) \<le> 10 ^ Suc n"
  by (induction n) auto

lemma nat_digits_times_ten_minus:
  assumes "2 \<le> x"
  shows "nat_digits (10 * x - 1) = nat_digits (x - 1) @ [digit_char 9]"
proof -
  obtain y where y: "x = Suc y" "1 \<le> y" using assms by (cases x) auto
  have e: "10 * x - 1 = 10 * y + 9" using y by simp
  have a: "\<not> 10 * y + 9 < 10" using y by simp
  have b: "(10 * y + 9) div 10 = y" by simp
  have c: "(10 * y + 9) mod 10 = 9" by simp
  have "nat_digits (10 * y + 9) = nat_digits y @ [digit_char 9]"
    by (subst nat_digits.simps) (simp only: a b c if_False)
  moreover have "x - 1 = y" using y by simp
  ultimately show ?thesis by (simp only: e)
qed

lemma nat_digits_times_ten:
  assumes "1 \<le> x"
  shows "nat_digits (10 * x) = nat_digits x @ [digit_char 0]"
proof -
  have a: "\<not> 10 * x < 10" using assms by arith
  have b: "(10 * x) div 10 = x" by simp
  have c: "(10 * x) mod 10 = 0" by simp
  show ?thesis by (subst nat_digits.simps) (simp only: a b c if_False)
qed

lemma nat_digits_nines: "nat_digits (10 ^ Suc n - 1) = replicate (Suc n) CHR ''9''"
proof (induction n)
  case 0
  have "nat_digits 9 = [digit_char 9]" by (subst nat_digits.simps) simp
  then show ?case by (simp add: digit_char_def)
next
  case (Suc n)
  have "(2::nat) \<le> 10 ^ Suc n" using power_ten_ge[of n] by linarith
  from nat_digits_times_ten_minus[OF this]
  have "nat_digits (10 ^ Suc (Suc n) - 1) = nat_digits (10 ^ Suc n - 1) @ [digit_char 9]"
    by (simp only: power_Suc)
  also have "\<dots> = replicate (Suc n) CHR ''9'' @ [CHR ''9'']"
    using Suc by (simp add: digit_char_def)
  finally show ?case by (simp add: replicate_append_same)
qed

lemma length_nat_digits_power: "length (nat_digits (10 ^ n)) = Suc n"
proof (induction n)
  case 0
  have "nat_digits 1 = [digit_char 1]" by (subst nat_digits.simps) simp
  then show ?case by simp
next
  case (Suc n)
  have "(1::nat) \<le> 10 ^ n" by simp
  from nat_digits_times_ten[OF this]
  have "nat_digits (10 ^ Suc n) = nat_digits (10 ^ n) @ [digit_char 0]"
    by (simp only: power_Suc)
  then show ?case using Suc by simp
qed

lemma int_value_digits:
  assumes "list_all is_digit ds" and "ds \<noteq> []"
  shows "int_value ds \<noteq> None"
proof -
  obtain c cs where e: "ds = c # cs" using assms(2) by (cases ds) auto
  have c: "is_digit c" "list_all is_digit cs" using assms(1) e by auto
  then have s: "c \<noteq> CHR ''-''" "c \<noteq> CHR ''+''" using is_digit_not_sign by auto
  have "int_digits a cs \<noteq> None" for a
    using c(2) by (induction a cs rule: int_digits.induct) auto
  then have "int_literal (c # cs) \<noteq> None" using c(1) by (simp add: int_literal_def)
  moreover have "str_strip ds = c # cs" using str_strip_digits[OF assms(1)] e by simp
  ultimately show ?thesis using s by (simp add: int_value_def)
qed

subsection \<open>The pattern of URIs\<close>

lemma startswith_iff: "startswith s p \<longleftrightarrow> (\<exists>r. s = p @ r)"
  by (induction s p rule: startswith.induct) auto

lemma takeWhile_run: "list_all P xs \<Longrightarrow> \<not> P y \<Longrightarrow> takeWhile P (xs @ y # ys) = xs"
  by (induction xs) auto

lemma dropWhile_run: "list_all P xs \<Longrightarrow> \<not> P y \<Longrightarrow> dropWhile P (xs @ y # ys) = y # ys"
  by (induction xs) auto

lemma uri_scheme_cases:
  "uri_scheme s = Some (scheme, rest) \<Longrightarrow>
   (scheme = ''http://'' \<or> scheme = ''https://'') \<and> s = scheme @ rest"
  by (auto simp: uri_scheme_def startswith_iff split: if_splits)

lemma uri_scheme_append:
  "scheme = ''http://'' \<or> scheme = ''https://'' \<Longrightarrow> uri_scheme (scheme @ r) = Some (scheme, r)"
  by (auto simp: uri_scheme_def)

lemma URI_REGEX_match_build:
  assumes "scheme = ''http://'' \<or> scheme = ''https://''"
    and "host \<noteq> []" and "list_all not_slash host"
    and "v \<noteq> []" and "list_all not_slash v"
    and "n \<noteq> []" and "list_all name_char n"
  shows "URI_REGEX_match (scheme @ host @ ''/'' @ v @ ''/'' @ n)
         = Some \<lparr>group_namespace = scheme @ host, group_version = v, group_name = n\<rparr>"
proof -
  have s: "uri_scheme (scheme @ host @ ''/'' @ v @ ''/'' @ n) = Some (scheme, host @ ''/'' @ v @ ''/'' @ n)"
    using assms(1) by (rule uri_scheme_append)
  have ns: "\<not> not_slash CHR ''/''" by (simp add: not_slash_def)
  have h1: "takeWhile not_slash (host @ CHR ''/'' # v @ CHR ''/'' # n) = host"
    using takeWhile_run[OF assms(3) ns] by simp
  have h2: "dropWhile not_slash (host @ CHR ''/'' # v @ CHR ''/'' # n) = CHR ''/'' # v @ CHR ''/'' # n"
    using dropWhile_run[OF assms(3) ns] by simp
  have v1: "takeWhile not_slash (v @ CHR ''/'' # n) = v"
    using takeWhile_run[OF assms(5) ns] by simp
  have v2: "dropWhile not_slash (v @ CHR ''/'' # n) = CHR ''/'' # n"
    using dropWhile_run[OF assms(5) ns] by simp
  show ?thesis
    unfolding URI_REGEX_match_def s
    using assms(2,4,6,7) by (simp add: h1 h2 v1 v2)
qed

lemma dropWhile_Cons_split:
  "dropWhile P xs = y # ys \<Longrightarrow> xs = takeWhile P xs @ y # ys \<and> \<not> P y"
  by (metis takeWhile_dropWhile_id hd_dropWhile list.sel(1) list.distinct(1))

lemma URI_REGEX_match_shape:
  assumes "URI_REGEX_match s = Some g"
  shows "\<exists>scheme host.
           (scheme = ''http://'' \<or> scheme = ''https://'') \<and> host \<noteq> [] \<and> list_all not_slash host \<and>
           group_namespace g = scheme @ host \<and>
           group_version g \<noteq> [] \<and> list_all not_slash (group_version g) \<and>
           group_name g \<noteq> [] \<and> list_all name_char (group_name g) \<and>
           s = group_namespace g @ ''/'' @ group_version g @ ''/'' @ group_name g"
proof -
  from assms obtain scheme rest where sc: "uri_scheme s = Some (scheme, rest)"
    by (auto simp: URI_REGEX_match_def split: option.splits)
  let ?host = "takeWhile not_slash rest"
  from assms sc have h: "?host \<noteq> []"
    by (auto simp: URI_REGEX_match_def Let_def split: if_splits)
  from assms sc h obtain x rest2 where r1: "dropWhile not_slash rest = x # rest2"
    by (auto simp: URI_REGEX_match_def Let_def split: if_splits list.splits)
  let ?ver = "takeWhile not_slash rest2"
  from assms sc h r1 have v: "?ver \<noteq> []"
    by (auto simp: URI_REGEX_match_def Let_def split: if_splits)
  from assms sc h r1 v obtain y nm where r2: "dropWhile not_slash rest2 = y # nm"
    by (auto simp: URI_REGEX_match_def Let_def split: if_splits list.splits)
  from assms sc h r1 v r2 have nm: "nm \<noteq> []" "list_all name_char nm"
    and g: "g = \<lparr>group_namespace = scheme @ ?host, group_version = ?ver, group_name = nm\<rparr>"
    by (auto simp: URI_REGEX_match_def Let_def split: if_splits)
  from dropWhile_Cons_split[OF r1] have e1: "rest = ?host @ x # rest2" and x: "\<not> not_slash x" by auto
  from dropWhile_Cons_split[OF r2] have e2: "rest2 = ?ver @ y # nm" and y: "\<not> not_slash y" by auto
  from x y have xy: "x = CHR ''/''" "y = CHR ''/''" by (auto simp: not_slash_def)
  have la: "list_all not_slash ?host" "list_all not_slash ?ver"
    by (auto simp: list_all_iff dest: set_takeWhileD)
  from uri_scheme_cases[OF sc] have s: "s = scheme @ rest"
    and sch: "scheme = ''http://'' \<or> scheme = ''https://''" by auto
  have "s = (scheme @ ?host) @ ''/'' @ ?ver @ ''/'' @ nm"
    using s e1 e2 xy by (metis append.assoc append_Cons append_Nil)
  then show ?thesis using sch h v nm la g by auto
qed

lemma URI_REGEX_match_None_text: "URI_REGEX_match ''None'' = None"
  by (simp add: URI_REGEX_match_def uri_scheme_def)

text \<open>
  A namespace with a slash after its host: the URI built from it has three slashes or
  more after the scheme, and the pattern asks for two.
\<close>

lemma no_slash_filter: "list_all not_slash xs \<Longrightarrow> filter (\<lambda>c. c = CHR ''/'') xs = []"
  by (induction xs) (auto simp: not_slash_def)

lemma name_char_not_slash: "list_all name_char xs \<Longrightarrow> list_all not_slash xs"
  by (induction xs) (auto simp: name_char_def not_slash_def)

lemma slash_filter: "CHR ''/'' \<in> set xs \<Longrightarrow> filter (\<lambda>c. c = CHR ''/'') xs \<noteq> []"
  by (induction xs) auto

lemma built_uri_with_path:
  assumes u: "entity_uri e = None" and n: "entity_namespace e = Some ns"
    and sc: "uri_scheme ns = Some (scheme, r)" and sl: "CHR ''/'' \<in> set r"
  shows "URI_REGEX_match (get_uri e) = None"
proof (rule ccontr)
  let ?V = "py_str (entity_version e)" and ?N = "py_str (entity_name e)"
  let ?c = "\<lambda>xs. length (filter (\<lambda>c. c = CHR ''/'') xs)"
  assume "URI_REGEX_match (get_uri e) \<noteq> None"
  then obtain g where g: "URI_REGEX_match (get_uri e) = Some g" by auto
  from uri_scheme_cases[OF sc] have ns: "ns = scheme @ r"
    and sch: "scheme = ''http://'' \<or> scheme = ''https://''" by auto
  have s: "get_uri e = scheme @ (r @ ''/'' @ ?V @ ''/'' @ ?N)"
    using u n ns by (simp add: get_uri_def py_str_def)
  from URI_REGEX_match_shape[OF g] obtain scheme' host where
    sh: "scheme' = ''http://'' \<or> scheme' = ''https://''" "list_all not_slash host"
      "group_namespace g = scheme' @ host"
      "list_all not_slash (group_version g)" "list_all name_char (group_name g)"
      "get_uri e = group_namespace g @ ''/'' @ group_version g @ ''/'' @ group_name g"
    by blast
  have s': "get_uri e = scheme' @ (host @ ''/'' @ group_version g @ ''/'' @ group_name g)"
    using sh(3,6) by simp
  have "uri_scheme (get_uri e) = Some (scheme, r @ ''/'' @ ?V @ ''/'' @ ?N)"
    unfolding s using sch by (rule uri_scheme_append)
  moreover have "uri_scheme (get_uri e)
      = Some (scheme', host @ ''/'' @ group_version g @ ''/'' @ group_name g)"
    unfolding s' using sh(1) by (rule uri_scheme_append)
  ultimately have eq: "r @ ''/'' @ ?V @ ''/'' @ ?N
      = host @ ''/'' @ group_version g @ ''/'' @ group_name g" by simp
  have two: "?c (host @ ''/'' @ group_version g @ ''/'' @ group_name g) = 2"
    using no_slash_filter[OF sh(2)] no_slash_filter[OF sh(4)]
      no_slash_filter[OF name_char_not_slash[OF sh(5)]] by simp
  have "0 < ?c r" using slash_filter[OF sl] by simp
  moreover have "?c (r @ ''/'' @ ?V @ ''/'' @ ?N) = ?c r + ?c ?V + ?c ?N + 2" by simp
  ultimately have three: "3 \<le> ?c (r @ ''/'' @ ?V @ ''/'' @ ?N)" by linarith
  from eq have "?c (r @ ''/'' @ ?V @ ''/'' @ ?N)
      = ?c (host @ ''/'' @ group_version g @ ''/'' @ group_name g)"
    by (rule arg_cong)
  with two three show False by linarith
qed

subsection \<open>Entities and versions\<close>

lemma soft5_with_simps:
  "entity_name (soft5_with n v ns u) = n" "entity_version (soft5_with n v ns u) = v"
  "entity_namespace (soft5_with n v ns u) = ns" "entity_uri (soft5_with n v ns u) = u"
  by (simp_all add: soft5_with_def)

lemma get_version_of_version: "entity_version e = Some v \<Longrightarrow> get_version e = Inr v"
  by (simp add: get_version_def)

lemma split_three_parts:
  "CHR ''.'' \<notin> set a \<Longrightarrow> CHR ''.'' \<notin> set b \<Longrightarrow> CHR ''.'' \<notin> set c \<Longrightarrow>
   str_split CHR ''.'' (a @ ''.'' @ b @ ''.'' @ c) = [a, b, c]"
  by (simp add: str_split_append str_split_no_sep)

lemma get_updated_version_Inr:
  "get_version e = Inr v \<Longrightarrow>
   get_updated_version m e =
     (if length (str_split CHR ''.'' v) = 1 then Inr (str_split CHR ''.'' v ! 0 @ ''.1'')
      else if length (str_split CHR ''.'' v) = 2
      then Inr (str_split CHR ''.'' v ! 0 @ ''.'' @ str_split CHR ''.'' v ! 1 @ ''.1'')
      else if length (str_split CHR ''.'' v) = 3
      then (case py_int m (str_split CHR ''.'' v ! 2) of
              None \<Rightarrow> Inl (ValueError_int (str_split CHR ''.'' v ! 2))
            | Some patch \<Rightarrow>
                (case str_int m (patch + 1) of
                   None \<Rightarrow> Inl (ValueError_str (patch + 1))
                 | Some text \<Rightarrow>
                     Inr (str_split CHR ''.'' v ! 0 @ ''.'' @ str_split CHR ''.'' v ! 1 @ ''.''
                          @ text)))
      else Inl (ValueError version_shape_message))"
  by (simp add: get_updated_version_def Let_def)

lemma get_version_soft5_with: "get_version (soft5_with n (Some v) ns u) = Inr v"
  by (simp add: get_version_def soft5_with_simps)

lemma replicate_digits: "is_digit c \<Longrightarrow> list_all is_digit (replicate m c)"
  by (simp add: list_all_iff)

lemma is_digit_nine: "is_digit CHR ''9''" by (simp add: is_digit_def)
lemma is_digit_one: "is_digit CHR ''1''" by (simp add: is_digit_def)

lemma int_value_nines:
  assumes "m = Suc n"
  shows "int_value (replicate m CHR ''9'') = Some (10 ^ m - 1)"
proof -
  have "int_value (nat_digits (10 ^ Suc n - 1)) = Some (int (10 ^ Suc n - 1))"
    by (rule int_value_nat_digits)
  moreover have "int (10 ^ Suc n - 1) = 10 ^ Suc n - 1"
    by (simp add: of_nat_diff)
  ultimately show ?thesis using assms nat_digits_nines[of n] by simp
qed

lemma nines_updated:
  assumes m: "m = Suc n" and big: "640 < m"
    and dots: "CHR ''.'' \<notin> set major" "CHR ''.'' \<notin> set minor"
  shows "get_updated_version m
           (soft5_with None (Some (major @ ''.'' @ minor @ ''.'' @ replicate m CHR ''9'')) None None)
         = Inl (ValueError_str (10 ^ m))"
proof -
  let ?p = "replicate m CHR ''9''"
  let ?v = "major @ ''.'' @ minor @ ''.'' @ ?p"
  have nd: "CHR ''.'' \<notin> set ?p" by auto
  have sp: "str_split CHR ''.'' ?v = [major, minor, ?p]"
    using split_three_parts[OF dots nd] .
  have gv: "get_version (soft5_with None (Some ?v) None None) = Inr ?v"
    by (rule get_version_soft5_with)
  have f: "filter is_digit ?p = ?p"
    by (rule filter_digits_all) (rule replicate_digits[OF is_digit_nine])
  have pi: "py_int m ?p = Some (10 ^ m - 1)"
    using int_value_nines[OF m] by (simp add: py_int_def f exceeds_max_str_digits_def)
  have l: "length (nat_digits (10 ^ m)) = Suc m" by (rule length_nat_digits_power)
  have t: "int_text (10 ^ m) = nat_digits (10 ^ m)"
    using int_text_nat[of "10 ^ m"] by simp
  have n: "nat ((10::int) ^ m) = 10 ^ m"
    by (simp add: nat_power_eq)
  have si: "str_int m (10 ^ m - 1 + 1) = None"
    using big by (simp add: str_int_def t n l exceeds_max_str_digits_def)
  show ?thesis
    using get_updated_version_Inr[OF gv, of m] sp pi si
    by simp
qed

lemma many_digits_updated:
  assumes big: "640 < m" and pos: "m < k" and d: "is_digit c"
    and dots: "CHR ''.'' \<notin> set major" "CHR ''.'' \<notin> set minor"
  shows "get_updated_version m
           (soft5_with None (Some (major @ ''.'' @ minor @ ''.'' @ replicate k c)) None None)
         = Inl (ValueError_int (replicate k c))"
proof -
  let ?p = "replicate k c"
  let ?v = "major @ ''.'' @ minor @ ''.'' @ ?p"
  have "c \<noteq> CHR ''.''" using d by (auto simp: is_digit_def)
  then have nd: "CHR ''.'' \<notin> set ?p" by auto
  have sp: "str_split CHR ''.'' ?v = [major, minor, ?p]"
    using split_three_parts[OF dots nd] .
  have gv: "get_version (soft5_with None (Some ?v) None None) = Inr ?v"
    by (rule get_version_soft5_with)
  have f: "filter is_digit ?p = ?p"
    by (rule filter_digits_all) (rule replicate_digits[OF d])
  have pi: "py_int m ?p = None"
    using big pos by (simp add: py_int_def f exceeds_max_str_digits_def)
  show ?thesis
    using get_updated_version_Inr[OF gv, of m] sp pi
    by simp
qed

lemma patch_refused_iff:
  "patch_refused m patch \<longleftrightarrow>
     py_int m patch = None \<or> (\<exists>i. py_int m patch = Some i \<and> str_int m (i + 1) = None)"
  by (auto simp: patch_refused_def py_int_def str_int_def split: option.splits if_splits)

lemma patch_refused_no_limit: "patch_refused 0 patch \<longleftrightarrow> int_value patch = None"
  by (auto simp: patch_refused_def exceeds_max_str_digits_def split: option.splits)

subsection \<open>Validation\<close>

lemma ap_Inr_iff: "ap f x = Inr y \<longleftrightarrow> (\<exists>g v. f = Inr g \<and> x = Inr v \<and> y = g v)"
  by (auto simp: ap_def split: sum.splits)

lemma ap_Inr: "ap (Inr g) (Inr v) = Inr (g v)"
  by (simp add: ap_def)

lemma ap_Inl: "isl x \<Longrightarrow> isl (ap f x)"
  by (auto simp: ap_def split: sum.splits)

lemma ap_Inl_fun: "isl f \<Longrightarrow> isl (ap f x)"
  by (auto simp: ap_def split: sum.splits)

lemma at_loc_Inr_iff: "at_loc l r = Inr v \<longleftrightarrow> r = Inr v"
  by (auto simp: at_loc_def split: sum.splits)

lemma field_validator_Inr_iff: "field_validator f r = Inr v \<longleftrightarrow> (\<exists>w. r = Inr w \<and> f w = Inr v)"
  by (auto simp: field_validator_def split: sum.splits)

lemma field_Inr_iff:
  "field data key dflt validate = Inr v \<longleftrightarrow>
     (map_of data key = None \<and> dflt = Inr v) \<or> (\<exists>x. map_of data key = Some x \<and> validate x = Inr v)"
  by (auto simp: field_def at_loc_Inr_iff split: option.splits)

lemma validate_base_url_Inr_iff:
  "validate_base_url CONFIG value = Inr v \<longleftrightarrow> v = value \<and> startswith (py_str value) (base_url CONFIG)"
  by (auto simp: validate_base_url_def)

lemma only_support_onto_ns_Inr_iff:
  "only_support_onto_ns value = Inr v \<longleftrightarrow> v = value \<and> value = EntitySchema_uri"
  by (auto simp: only_support_onto_ns_def)

lemma SOFT5Entity_fields_Inr:
  assumes "SOFT5Entity_fields url CONFIG data = Inr e"
  shows "field data ''namespace'' (Inr None)
          (\<lambda>v. field_validator (validate_base_url CONFIG) (validate_optional (validate_url url) v))
         = Inr (namespace e)"
    and "field data ''uri'' (Inr None)
          (\<lambda>v. field_validator (validate_base_url CONFIG) (validate_optional (validate_url url) v))
         = Inr (uri e)"
    and "field data ''meta'' (Inr EntitySchema_uri)
          (\<lambda>v. field_validator only_support_onto_ns (validate_url url v)) = Inr (meta e)"
  using assms unfolding SOFT5Entity_fields_def ap_Inr_iff by auto

lemma SOFT5Entity_validate_Inr:
  "SOFT5Entity_validate url CONFIG data = Inr e \<longleftrightarrow>
     check_cross_dependent_fields data = Inr data \<and> SOFT5Entity_fields url CONFIG data = Inr e"
  by (auto simp: SOFT5Entity_validate_def check_cross_dependent_fields_def split: sum.splits if_splits)

lemma SOFT5Entity_validate_invariant:
  assumes "SOFT5Entity_validate url CONFIG data = Inr e"
  shows "dialect_invariant CONFIG (SOFT5 e)"
proof -
  from assms have f: "SOFT5Entity_fields url CONFIG data = Inr e"
    by (simp add: SOFT5Entity_validate_Inr)
  have u: "case uri e of None \<Rightarrow> True | Some u \<Rightarrow> startswith u (base_url CONFIG)"
    using SOFT5Entity_fields_Inr(2)[OF f]
    by (auto simp: field_Inr_iff field_validator_Inr_iff validate_base_url_Inr_iff py_str_def
        split: option.splits)
  have n: "case namespace e of None \<Rightarrow> True | Some u \<Rightarrow> startswith u (base_url CONFIG)"
    using SOFT5Entity_fields_Inr(1)[OF f]
    by (auto simp: field_Inr_iff field_validator_Inr_iff validate_base_url_Inr_iff py_str_def
        split: option.splits)
  have m: "meta e = EntitySchema_uri"
    using SOFT5Entity_fields_Inr(3)[OF f]
    by (auto simp: field_Inr_iff field_validator_Inr_iff only_support_onto_ns_Inr_iff)
  show ?thesis using u n m by (simp add: dialect_invariant_def)
qed

lemma isl_iff_not_Inr: "isl r \<longleftrightarrow> (\<forall>v. r \<noteq> Inr v)"
  by (cases r) auto

lemma SOFT5Entity_rejects_uri:
  assumes "map_of d ''uri'' = Some (PStr s)" and "url s = Some u"
    and "\<not> startswith u (base_url CONFIG)"
  shows "isl (SOFT5Entity_validate url CONFIG d)"
proof -
  have "SOFT5Entity_validate url CONFIG d \<noteq> Inr e" for e
  proof
    assume "SOFT5Entity_validate url CONFIG d = Inr e"
    then have f: "SOFT5Entity_fields url CONFIG d = Inr e" by (simp add: SOFT5Entity_validate_Inr)
    show False
      using SOFT5Entity_fields_Inr(2)[OF f] assms
      by (auto simp: field_Inr_iff field_validator_Inr_iff validate_base_url_Inr_iff py_str_def
          validate_optional_def validate_url_def ap_Inr_iff)
  qed
  then show ?thesis by (simp add: isl_iff_not_Inr)
qed

lemma SOFT5Entity_rejects_namespace:
  assumes "map_of d ''namespace'' = Some (PStr s)" and "url s = Some u"
    and "\<not> startswith u (base_url CONFIG)"
  shows "isl (SOFT5Entity_validate url CONFIG d)"
proof -
  have "SOFT5Entity_validate url CONFIG d \<noteq> Inr e" for e
  proof
    assume "SOFT5Entity_validate url CONFIG d = Inr e"
    then have f: "SOFT5Entity_fields url CONFIG d = Inr e" by (simp add: SOFT5Entity_validate_Inr)
    show False
      using SOFT5Entity_fields_Inr(1)[OF f] assms
      by (auto simp: field_Inr_iff field_validator_Inr_iff validate_base_url_Inr_iff py_str_def
          validate_optional_def validate_url_def ap_Inr_iff)
  qed
  then show ?thesis by (simp add: isl_iff_not_Inr)
qed

lemma SOFT5Entity_rejects_meta:
  assumes "map_of d ''meta'' = Some (PStr s)" and "url s = Some u"
    and "u \<noteq> EntitySchema_uri"
  shows "isl (SOFT5Entity_validate url CONFIG d)"
proof -
  have "SOFT5Entity_validate url CONFIG d \<noteq> Inr e" for e
  proof
    assume "SOFT5Entity_validate url CONFIG d = Inr e"
    then have f: "SOFT5Entity_fields url CONFIG d = Inr e" by (simp add: SOFT5Entity_validate_Inr)
    show False
      using SOFT5Entity_fields_Inr(3)[OF f] assms
      by (auto simp: field_Inr_iff field_validator_Inr_iff only_support_onto_ns_Inr_iff
          validate_url_def)
  qed
  then show ?thesis by (simp add: isl_iff_not_Inr)
qed

lemma check_cross_dependent_fields_Inr_iff:
  "check_cross_dependent_fields data = Inr data' \<longleftrightarrow>
     data' = data \<and>
     (dict_get data ''name'' \<noteq> PNone \<and> dict_get data ''version'' \<noteq> PNone
        \<and> dict_get data ''namespace'' \<noteq> PNone
      \<or> dict_get data ''name'' = PNone \<and> dict_get data ''version'' = PNone
        \<and> dict_get data ''namespace'' = PNone)"
  by (auto simp: check_cross_dependent_fields_def)

lemma try_classes_Inl:
  "try_classes cs kwargs errors = Inl es \<Longrightarrow>
   list_all (\<lambda>c. isl (c kwargs)) cs \<and> es = errors @ map (\<lambda>c. projl (c kwargs)) cs"
proof (induction cs arbitrary: errors)
  case Nil
  then show ?case by simp
next
  case (Cons c cs)
  show ?case
  proof (cases "c kwargs")
    case (Inl exc)
    with Cons.prems have "try_classes cs kwargs (errors @ [exc]) = Inl es" by simp
    from Cons.IH[OF this] show ?thesis using Inl by simp
  next
    case (Inr new_object)
    with Cons.prems show ?thesis by simp
  qed
qed

lemma try_classes_Inr:
  "try_classes cs kwargs errors = Inr obj \<Longrightarrow>
   \<exists>before c after. cs = before @ c # after \<and> list_all (\<lambda>c. isl (c kwargs)) before \<and> c kwargs = Inr obj"
proof (induction cs arbitrary: errors)
  case Nil
  then show ?case by simp
next
  case (Cons c cs)
  show ?case
  proof (cases "c kwargs")
    case (Inl exc)
    with Cons.prems have "try_classes cs kwargs (errors @ [exc]) = Inr obj" by simp
    from Cons.IH[OF this] obtain before c' after where
      "cs = before @ c' # after" "list_all (\<lambda>c. isl (c kwargs)) before" "c' kwargs = Inr obj"
      by blast
    then have "c # cs = (c # before) @ c' # after \<and> list_all (\<lambda>c. isl (c kwargs)) (c # before)
        \<and> c' kwargs = Inr obj"
      using Inl by simp
    then show ?thesis by blast
  next
    case (Inr new_object)
    with Cons.prems have "c # cs = [] @ c # cs \<and> list_all (\<lambda>c. isl (c kwargs)) [] \<and> c kwargs = Inr obj"
      by simp
    then show ?thesis by blast
  qed
qed

lemma soft_entity_cases:
  "soft_entity S7 url CONFIG return_errors d =
     (case S7 d of
        Inr e7 \<Rightarrow> Inr (Entity (SOFT7 e7))
      | Inl x7 \<Rightarrow>
          (case SOFT5Entity_validate url CONFIG d of
             Inr e5 \<Rightarrow> Inr (Entity (SOFT5 e5))
           | Inl x5 \<Rightarrow>
               if return_errors then Inr (Errors [x7, x5])
               else Inl (ValueError_instantiate [x7, x5])))"
  by (simp add: soft_entity_def versioned_entity_classes_def split: sum.splits)

lemmas validate_defs = SOFT5Entity_validate_def check_cross_dependent_fields_def dict_get_def
  SOFT5Entity_fields_def field_def ap_def at_loc_def required_def validate_str_def
  validate_optional_def validate_list_def validate_url_def field_validator_def
  validate_base_url_def only_support_onto_ns_def SOFT5Property_validate_def
  SOFT5Dimension_validate_def py_str_def EntitySchema_uri_def default_settings_def

lemma mixed_document_valid:
  assumes "url ''http://onto-ns.com/meta/1.0/A'' = Some ''http://onto-ns.com/meta/1.0/A''"
    and "url ''http://onto-ns.com/meta'' = Some ''http://onto-ns.com/meta''"
  shows "SOFT5Entity_validate url default_settings mixed_document = Inr mixed_entity"
  using assms by (simp add: mixed_document_def mixed_entity_def validate_defs)

lemma map_of_uri_other: "k \<noteq> ''uri'' \<Longrightarrow> map_of ((''uri'', x) # d) k = map_of d k"
  by simp

lemma SOFT5Entity_uri_independent:
  assumes v: "SOFT5Entity_validate url CONFIG d = Inr e"
    and u: "url s = Some u" and b: "startswith u (base_url CONFIG)"
  shows "SOFT5Entity_validate url CONFIG ((''uri'', PStr s) # d) = Inr (e\<lparr>uri := Some u\<rparr>)"
proof -
  let ?d = "(''uri'', PStr s) # d"
  from v have c: "check_cross_dependent_fields d = Inr d" and f: "SOFT5Entity_fields url CONFIG d = Inr e"
    by (simp_all add: SOFT5Entity_validate_Inr)
  have c': "check_cross_dependent_fields ?d = Inr ?d"
    using c by (simp add: check_cross_dependent_fields_Inr_iff dict_get_def)
  have o: "field ?d k dflt val = field d k dflt val" if "k \<noteq> ''uri''" for k and dflt :: "'a validated" and val
    using that by (simp add: field_def)
  have n: "field ?d ''uri'' (Inr None)
          (\<lambda>v. field_validator (validate_base_url CONFIG) (validate_optional (validate_url url) v))
         = Inr (Some u)"
    using u b by (simp add: field_def at_loc_def field_validator_def validate_optional_def
        validate_url_def ap_def validate_base_url_def py_str_def)
  have "SOFT5Entity_fields url CONFIG ?d = Inr (e\<lparr>uri := Some u\<rparr>)"
    using f unfolding SOFT5Entity_fields_def ap_Inr_iff
    by (simp add: o n) auto
  then show ?thesis using c' by (simp add: SOFT5Entity_validate_Inr)
qed

subsection \<open>The values the properties are applied to\<close>

lemma soft7_stand_in_invariant:
  "soft7_stand_in d = Inr e7 \<Longrightarrow> dialect_invariant CONFIG (SOFT7 e7)"
  by (auto simp: soft7_stand_in_def dialect_invariant_def split: if_splits)

lemma soft7_stand_in_mixed:
  "soft7_stand_in mixed_document = Inl (ValidationError [([Key ''properties''], model_type)])"
  by (simp add: soft7_stand_in_def mixed_document_def)

lemma mixed_document_Some: "SOFT5Entity_validate Some default_settings mixed_document = Inr mixed_entity"
  by (rule mixed_document_valid) simp_all

text \<open>The conjuncts of a statement, by their place.\<close>

lemmas conj_1 = conjunct1
lemmas conj_2 = conjunct2[THEN conjunct1]
lemmas conj_3 = conjunct2[THEN conjunct2, THEN conjunct1]
lemmas conj_4 = conjunct2[THEN conjunct2, THEN conjunct2, THEN conjunct1]
lemmas conj_5 = conjunct2[THEN conjunct2, THEN conjunct2, THEN conjunct2, THEN conjunct1]
lemmas conj_6 = conjunct2[THEN conjunct2, THEN conjunct2, THEN conjunct2, THEN conjunct2, THEN conjunct1]
lemmas conj_7 = conjunct2[THEN conjunct2, THEN conjunct2, THEN conjunct2, THEN conjunct2, THEN conjunct2, THEN conjunct1]

lemmas conj_8 = conjunct2[THEN conjunct2, THEN conjunct2, THEN conjunct2, THEN conjunct2,
  THEN conjunct2, THEN conjunct2, THEN conjunct1]

subsection \<open>The backend\<close>

text \<open>
  A dictionary with the key \<^verbatim>\<open>return_errors\<close> is no case of a resolution: the call of
  the resolver raises before any class is tried, and so does the containment check.
\<close>

lemma contains_return_errors_key:
  "map_of d ''return_errors'' = Some v \<Longrightarrow>
   Backend_contains S7 url CONFIG read (Raw (PDict d))
     = Inl (TypeError multiple_values_message)"
  by (simp add: Backend_contains_def soft_entity_return_errors_def)

text \<open>
  The containment check where the call of the resolver returns, and for entities and
  strings.
\<close>

lemma contains_cases:
  "(map_of d ''return_errors'' = None
      \<longrightarrow> soft_entity_return_errors S7 url CONFIG d = soft_entity S7 url CONFIG True d)
   \<and> (soft_entity_return_errors S7 url CONFIG d = Inr (Errors errs)
      \<longrightarrow> Backend_contains S7 url CONFIG read (Raw (PDict d)) = Inr False)
   \<and> (map_of d ''return_errors'' = None \<and> isl (S7 d) \<and> isl (SOFT5Entity_validate url CONFIG d)
      \<longrightarrow> Backend_contains S7 url CONFIG read (Raw (PDict d)) = Inr False)
   \<and> (soft_entity_return_errors S7 url CONFIG d = Inr (Entity entity)
        \<and> read (get_uri entity) = Inr found
      \<longrightarrow> Backend_contains S7 url CONFIG read (Raw (PDict d)) = Inr (found \<noteq> None))
   \<and> (read (get_uri entity) = Inr found
      \<longrightarrow> Backend_contains S7 url CONFIG read (Typed entity) = Inr (found \<noteq> None))
   \<and> (read s = Inr found
      \<longrightarrow> Backend_contains S7 url CONFIG read (Raw (PStr s)) = Inr (found \<noteq> None))"
  by (auto simp: Backend_contains_def soft_entity_return_errors_def read_is_not_None_def
      soft_entity_cases split: sum.splits if_splits)

lemma call_keeps_closed: "is_closed self \<Longrightarrow> is_closed (snd (call S7 url CONFIG read operation self))"
  by (cases operation) (simp_all add: call_def close_def is_closed_def)

lemma run_keeps_closed: "is_closed self \<Longrightarrow> is_closed (run S7 url CONFIG read operations self)"
proof (induction operations arbitrary: self)
  case Nil
  then show ?case by simp
next
  case (Cons operation operations)
  from Cons.prems have "is_closed (snd (call S7 url CONFIG read operation self))"
    by (rule call_keeps_closed)
  then show ?case using Cons.IH by simp
qed

section \<open>The claims on identities\<close>

text \<open>
  Claim C1.  The claim asks that \<open>URI_REGEX\<close> parse every URI that \<open>get_uri\<close> builds
  from a valid identity, and give the identity back.  The code does not do so at the
  identity of the schema entity of the service itself: the namespace
  \<^verbatim>\<open>http://onto-ns.com/meta\<close> (the default base URL, which a URL parser leaves as it is),
  the version \<^verbatim>\<open>0.3\<close> and the name \<^verbatim>\<open>EntitySchema\<close> are a valid identity and a document
  that SOFT5 accepts; \<open>get_uri\<close> builds \<^verbatim>\<open>http://onto-ns.com/meta/0.3/EntitySchema\<close> from
  the entity; \<open>URI_REGEX\<close> does not match that URI; and \<open>get_version\<close> of an entity that
  holds it as its \<open>uri\<close> fails.
\<close>

theorem built_uri_not_parsed:
  "valid_identity ''http://onto-ns.com/meta'' ''0.3'' ''EntitySchema''
   \<and> SOFT5Entity_validate Some default_settings
        [(''name'', PStr ''EntitySchema''), (''version'', PStr ''0.3''),
         (''namespace'', PStr ''http://onto-ns.com/meta''), (''properties'', PList [])]
       = Inr \<lparr>name = Some ''EntitySchema'', version = Some ''0.3'',
              namespace = Some ''http://onto-ns.com/meta'', uri = None, meta = EntitySchema_uri,
              description = [], dimensions = [], properties = []\<rparr>
   \<and> get_uri (SOFT5 \<lparr>name = Some ''EntitySchema'', version = Some ''0.3'',
              namespace = Some ''http://onto-ns.com/meta'', uri = None, meta = EntitySchema_uri,
              description = [], dimensions = [], properties = []\<rparr> :: unit VersionedSOFTEntity)
       = ''http://onto-ns.com/meta/0.3/EntitySchema''
   \<and> URI_REGEX_match ''http://onto-ns.com/meta/0.3/EntitySchema'' = None
   \<and> get_version (soft5_with None None None (Some ''http://onto-ns.com/meta/0.3/EntitySchema''))
       = Inl (ValueError ''Cannot parse URI to get version.'')"
  by (simp add: valid_identity_def is_http_url_def get_uri_def py_str_def URI_REGEX_match_def
      uri_scheme_def not_slash_def name_char_def get_version_def soft5_with_def validate_defs)

text \<open>
  Claim C8.  \<open>get_version\<close> returns the attribute \<open>version\<close> when it is set.  When it
  is not set and \<open>URI_REGEX\<close> matches the attribute \<open>uri\<close>, it returns the group
  \<^verbatim>\<open>version\<close> of the match, the part of the URI between the namespace and the name.
  When \<open>version\<close> is not set and the \<open>uri\<close> is not matched, or is not set either, it
  fails with the \<^verbatim>\<open>ValueError\<close> of a URI that cannot be parsed.
\<close>

theorem get_version_cases:
  "(entity_version e = Some v \<longrightarrow> get_version e = Inr v)
   \<and> (entity_version e = None \<and> entity_uri e = Some u \<and> URI_REGEX_match u = Some g
        \<longrightarrow> get_version e = Inr (group_version g)
            \<and> u = group_namespace g @ ''/'' @ group_version g @ ''/'' @ group_name g)
   \<and> (entity_version e = None \<and> entity_uri e = Some u \<and> URI_REGEX_match u = None
        \<longrightarrow> get_version e = Inl (ValueError ''Cannot parse URI to get version.''))
   \<and> (entity_version e = None \<and> entity_uri e = None
        \<longrightarrow> get_version e = Inl (ValueError ''Cannot parse URI to get version.''))"
  using URI_REGEX_match_shape[of u g]
  by (auto simp: get_version_def py_str_def URI_REGEX_match_None_text)

text \<open>
  The four cases at entities: a version that is set, a \<open>uri\<close> that is matched, one
  that is not, and neither attribute.
\<close>

theorem get_version_cases_witness:
  "get_version (soft5_with None (Some ''1.0'') None (Some ''http://onto-ns.com/0.3/A'')) = Inr ''1.0''
   \<and> URI_REGEX_match ''http://onto-ns.com/0.3/A''
       = Some \<lparr>group_namespace = ''http://onto-ns.com'', group_version = ''0.3'', group_name = ''A''\<rparr>
   \<and> get_version (soft5_with None None None (Some ''http://onto-ns.com/0.3/A'')) = Inr ''0.3''
   \<and> URI_REGEX_match ''http://onto-ns.com/meta/0.3/A'' = None
   \<and> get_version (soft5_with None None None (Some ''http://onto-ns.com/meta/0.3/A''))
       = Inl (ValueError ''Cannot parse URI to get version.'')
   \<and> get_version (soft5_with None None None None)
       = Inl (ValueError ''Cannot parse URI to get version.'')"
proof -
  have m: "URI_REGEX_match ''http://onto-ns.com/0.3/A''
       = Some \<lparr>group_namespace = ''http://onto-ns.com'', group_version = ''0.3'', group_name = ''A''\<rparr>"
    by (simp add: URI_REGEX_match_def uri_scheme_def not_slash_def name_char_def)
  have n: "URI_REGEX_match ''http://onto-ns.com/meta/0.3/A'' = None"
    by (simp add: URI_REGEX_match_def uri_scheme_def not_slash_def name_char_def)
  show ?thesis
    using m n
      get_version_cases[where e = "soft5_with None (Some ''1.0'') None (Some ''http://onto-ns.com/0.3/A'')"
        and v = "''1.0''"]
      get_version_cases[where e = "soft5_with None None None (Some ''http://onto-ns.com/0.3/A'')"
        and u = "''http://onto-ns.com/0.3/A''"
        and g = "\<lparr>group_namespace = ''http://onto-ns.com'', group_version = ''0.3'', group_name = ''A''\<rparr>"]
      get_version_cases[where e = "soft5_with None None None (Some ''http://onto-ns.com/meta/0.3/A'')"
        and u = "''http://onto-ns.com/meta/0.3/A''"]
      get_version_cases[where e = "soft5_with None None None None"]
    by (simp add: soft5_with_simps)
qed

section \<open>The claims on the next version\<close>

text \<open>
  Claim C3, as the code has it.  Let \<open>v\<close> be the version \<open>get_version\<close> finds and \<open>m\<close>
  the limit of the interpreter on the digits of a conversion.  When \<open>v\<close> splits at its
  dots into one piece, \<open>get_updated_version\<close> returns the piece followed by \<^verbatim>\<open>.1\<close>; into
  two pieces, the two pieces and \<^verbatim>\<open>1\<close>, joined by dots.  With three pieces of which
  \<^verbatim>\<open>int\<close> reads the last as the integer \<open>p\<close>, and \<^verbatim>\<open>str\<close> does not refuse \<open>p + 1\<close>, it
  returns the first two pieces and the text of \<open>p + 1\<close>; so MAJOR.MINOR.k becomes
  MAJOR.MINOR.(k+1) for every natural number \<open>k\<close> in decimal digits whose successor has
  no more digits than the limit, or when there is no limit.  With any other number
  of pieces it fails with the \<^verbatim>\<open>ValueError\<close> of a version of the wrong shape.  The four
  versions \<^verbatim>\<open>1\<close>, \<^verbatim>\<open>2.3\<close>, \<^verbatim>\<open>2.3.4\<close> and \<^verbatim>\<open>1.2.3.4\<close> give \<^verbatim>\<open>1.1\<close>, \<^verbatim>\<open>2.3.1\<close>,
  \<^verbatim>\<open>2.3.5\<close> and that failure, under every limit.
\<close>

theorem get_updated_version_shapes:
  "(get_version e = Inr v \<and> str_split CHR ''.'' v = [major]
      \<longrightarrow> get_updated_version m e = Inr (major @ ''.1''))
   \<and> (get_version e = Inr v \<and> str_split CHR ''.'' v = [major, minor]
      \<longrightarrow> get_updated_version m e = Inr (major @ ''.'' @ minor @ ''.1''))
   \<and> (get_version e = Inr v \<and> str_split CHR ''.'' v = [major, minor, patch]
        \<and> py_int m patch = Some p \<and> str_int m (p + 1) \<noteq> None
      \<longrightarrow> get_updated_version m e = Inr (major @ ''.'' @ minor @ ''.'' @ int_text (p + 1)))
   \<and> (get_version e = Inr (major @ ''.'' @ minor @ ''.'' @ nat_digits k)
        \<and> CHR ''.'' \<notin> set major \<and> CHR ''.'' \<notin> set minor
        \<and> (m = 0 \<or> length (nat_digits (Suc k)) \<le> m)
      \<longrightarrow> get_updated_version m e = Inr (major @ ''.'' @ minor @ ''.'' @ nat_digits (Suc k)))
   \<and> (get_version e = Inr v \<and> length (str_split CHR ''.'' v) \<notin> {1, 2, 3}
      \<longrightarrow> get_updated_version m e = Inl (ValueError version_shape_message))
   \<and> (get_version e = Inr ''1'' \<longrightarrow> get_updated_version m e = Inr ''1.1'')
   \<and> (get_version e = Inr ''2.3'' \<longrightarrow> get_updated_version m e = Inr ''2.3.1'')
   \<and> (get_version e = Inr ''2.3.4'' \<longrightarrow> get_updated_version m e = Inr ''2.3.5'')
   \<and> (get_version e = Inr ''1.2.3.4''
      \<longrightarrow> get_updated_version m e = Inl (ValueError version_shape_message))"
proof -
  have c1: "get_version e = Inr v \<and> str_split CHR ''.'' v = [major]
      \<longrightarrow> get_updated_version m e = Inr (major @ ''.1'')"
    by (simp add: get_updated_version_Inr)
  have c2: "get_version e = Inr v \<and> str_split CHR ''.'' v = [major, minor]
      \<longrightarrow> get_updated_version m e = Inr (major @ ''.'' @ minor @ ''.1'')"
    by (simp add: get_updated_version_Inr)
  have c3: "get_version e = Inr v \<and> str_split CHR ''.'' v = [major, minor, patch]
        \<and> py_int m patch = Some p \<and> str_int m (p + 1) \<noteq> None
      \<longrightarrow> get_updated_version m e = Inr (major @ ''.'' @ minor @ ''.'' @ int_text (p + 1))"
    by (auto simp: get_updated_version_Inr dest: str_int_Some)
  have c4: "get_version e = Inr (major @ ''.'' @ minor @ ''.'' @ nat_digits k)
        \<and> CHR ''.'' \<notin> set major \<and> CHR ''.'' \<notin> set minor
        \<and> (m = 0 \<or> length (nat_digits (Suc k)) \<le> m)
      \<longrightarrow> get_updated_version m e = Inr (major @ ''.'' @ minor @ ''.'' @ nat_digits (Suc k))"
  proof (intro impI, elim conjE)
    assume g: "get_version e = Inr (major @ ''.'' @ minor @ ''.'' @ nat_digits k)"
      and d: "CHR ''.'' \<notin> set major" "CHR ''.'' \<notin> set minor"
      and l: "m = 0 \<or> length (nat_digits (Suc k)) \<le> m"
    have sp: "str_split CHR ''.'' (major @ ''.'' @ minor @ ''.'' @ nat_digits k)
        = [major, minor, nat_digits k]"
      using split_three_parts[OF d nat_digits_no_dot] .
    have "length (nat_digits k) \<le> length (nat_digits (Suc k))"
      by (rule length_nat_digits_mono) simp
    then have lk: "m = 0 \<or> length (nat_digits k) \<le> m" using l by auto
    have pi: "py_int m (nat_digits k) = Some (int k)" by (rule py_int_nat_digits[OF lk])
    have "str_int m (int (Suc k)) = Some (nat_digits (Suc k))" by (rule str_int_nat[OF l])
    then have si: "str_int m (int k + 1) = Some (nat_digits (Suc k))"
      by (simp add: add.commute)
    show "get_updated_version m e = Inr (major @ ''.'' @ minor @ ''.'' @ nat_digits (Suc k))"
      using get_updated_version_Inr[OF g, of m] sp pi si by simp
  qed
  have c5: "get_version e = Inr v \<and> length (str_split CHR ''.'' v) \<notin> {1, 2, 3}
      \<longrightarrow> get_updated_version m e = Inl (ValueError version_shape_message)"
    by (simp add: get_updated_version_Inr)
  have e1: "get_version e = Inr ''1'' \<longrightarrow> get_updated_version m e = Inr ''1.1''"
    by (simp add: get_updated_version_Inr)
  have e2: "get_version e = Inr ''2.3'' \<longrightarrow> get_updated_version m e = Inr ''2.3.1''"
    by (simp add: get_updated_version_Inr)
  have e3: "get_version e = Inr ''2.3.4'' \<longrightarrow> get_updated_version m e = Inr ''2.3.5''"
    by (simp add: get_updated_version_Inr py_int_def int_value_def str_strip_def is_int_space_def
        int_literal_def is_digit_def digit_value_def str_int_def int_text_def nat_digits.simps
        digit_char_def exceeds_max_str_digits_def)
  have e4: "get_version e = Inr ''1.2.3.4''
      \<longrightarrow> get_updated_version m e = Inl (ValueError version_shape_message)"
    by (simp add: get_updated_version_Inr)
  from c1 c2 c3 c4 c5 e1 e2 e3 e4 show ?thesis by blast
qed

text \<open>
  The theorem under the limit 4300, at the versions \<^verbatim>\<open>7\<close>, \<^verbatim>\<open>7.0\<close>, \<^verbatim>\<open>0.1.09\<close>,
  \<^verbatim>\<open>0.1.9\<close>, \<^verbatim>\<open>1.2.3.4\<close> and the four versions it names.
\<close>

theorem get_updated_version_shapes_witness:
  "get_updated_version 4300 (soft5_with None (Some ''7'') None None) = Inr ''7.1''
   \<and> get_updated_version 4300 (soft5_with None (Some ''7.0'') None None) = Inr ''7.0.1''
   \<and> py_int 4300 ''09'' = Some 9 \<and> str_int 4300 (9 + 1) = Some ''10''
   \<and> get_updated_version 4300 (soft5_with None (Some ''0.1.09'') None None) = Inr ''0.1.10''
   \<and> nat_digits 9 = ''9'' \<and> nat_digits (Suc 9) = ''10''
   \<and> get_updated_version 4300 (soft5_with None (Some ''0.1.9'') None None) = Inr ''0.1.10''
   \<and> length (str_split CHR ''.'' ''1.2.3.4'') = 4
   \<and> get_updated_version 4300 (soft5_with None (Some ''1.2.3.4'') None None)
       = Inl (ValueError version_shape_message)
   \<and> get_updated_version 4300 (soft5_with None (Some ''1'') None None) = Inr ''1.1''
   \<and> get_updated_version 4300 (soft5_with None (Some ''2.3'') None None) = Inr ''2.3.1''
   \<and> get_updated_version 4300 (soft5_with None (Some ''2.3.4'') None None) = Inr ''2.3.5''"
proof -
  have gv: "\<And>v. get_version (soft5_with None (Some v) None None) = Inr v"
    by (rule get_version_soft5_with)
  have p: "py_int 4300 ''09'' = Some 9"
    by (simp add: py_int_def int_value_def str_strip_def is_int_space_def int_literal_def
        is_digit_def digit_value_def exceeds_max_str_digits_def)
  have d: "nat_digits 9 = ''9''" "nat_digits (Suc 9) = ''10''" "int_text (9 + 1) = ''10''"
    "str_int 4300 (9 + 1) = Some ''10''"
    by (simp_all add: str_int_def int_text_def nat_digits.simps digit_char_def
        exceeds_max_str_digits_def)
  have a1: "get_updated_version 4300 (soft5_with None (Some ''7'') None None) = Inr ''7.1''"
    using gv get_updated_version_shapes[where e = "soft5_with None (Some ''7'') None None"
        and v = "''7''" and major = "''7''" and m = 4300, THEN conj_1]
    by simp
  have a2: "get_updated_version 4300 (soft5_with None (Some ''7.0'') None None) = Inr ''7.0.1''"
    using gv get_updated_version_shapes[where e = "soft5_with None (Some ''7.0'') None None"
        and v = "''7.0''" and major = "''7''" and minor = "''0''" and m = 4300, THEN conj_2]
    by simp
  have a3: "get_updated_version 4300 (soft5_with None (Some ''0.1.09'') None None) = Inr ''0.1.10''"
    using gv p d get_updated_version_shapes[where e = "soft5_with None (Some ''0.1.09'') None None"
        and v = "''0.1.09''" and major = "''0''" and minor = "''1''" and patch = "''09''"
        and p = 9 and m = 4300, THEN conj_3]
    by simp
  have a4: "get_updated_version 4300 (soft5_with None (Some ''0.1.9'') None None) = Inr ''0.1.10''"
    using gv d get_updated_version_shapes[where e = "soft5_with None (Some ''0.1.9'') None None"
        and major = "''0''" and minor = "''1''" and k = 9 and m = 4300, THEN conj_4]
    by simp
  have a5: "get_updated_version 4300 (soft5_with None (Some ''1.2.3.4'') None None)
       = Inl (ValueError version_shape_message)"
    using gv get_updated_version_shapes[where e = "soft5_with None (Some ''1.2.3.4'') None None"
        and v = "''1.2.3.4''" and m = 4300, THEN conj_5]
    by simp
  have a6: "get_updated_version 4300 (soft5_with None (Some ''1'') None None) = Inr ''1.1''"
    using gv get_updated_version_shapes[where e = "soft5_with None (Some ''1'') None None"
        and m = 4300, THEN conj_6]
    by simp
  have a7: "get_updated_version 4300 (soft5_with None (Some ''2.3'') None None) = Inr ''2.3.1''"
    using gv get_updated_version_shapes[where e = "soft5_with None (Some ''2.3'') None None"
        and m = 4300, THEN conj_7]
    by simp
  have a8: "get_updated_version 4300 (soft5_with None (Some ''2.3.4'') None None) = Inr ''2.3.5''"
    using gv get_updated_version_shapes[where e = "soft5_with None (Some ''2.3.4'') None None"
        and m = 4300, THEN conj_8]
    by simp
  show ?thesis using p d(1,2,4) a1 a2 a3 a4 a5 a6 a7 a8 by simp
qed

text \<open>
  Claim C3 as it is written fails on the code under the limit 4300, the default of
  the interpreter.  The version \<^verbatim>\<open>2.3.\<close> followed by 4300 nines has three pieces, and
  its third piece is the integer \<open>10 ^ 4300 - 1\<close>; \<^verbatim>\<open>int\<close> reads it, and \<^verbatim>\<open>str\<close> refuses
  its successor, which has 4301 digits.  The call raises \<^verbatim>\<open>ValueError\<close> and returns no
  version.
\<close>

theorem get_updated_version_shapes_counterexample:
  "int_value (replicate 4300 CHR ''9'') = Some (10 ^ 4300 - 1)
   \<and> get_updated_version 4300
        (soft5_with None (Some (''2'' @ ''.'' @ ''3'' @ ''.'' @ replicate 4300 CHR ''9'')) None None)
       = Inl (ValueError_str (10 ^ 4300))"
proof (rule conjI)
  show "int_value (replicate 4300 CHR ''9'') = Some (10 ^ 4300 - 1)"
    by (rule int_value_nines[of 4300 4299]) simp
  show "get_updated_version 4300
        (soft5_with None (Some (''2'' @ ''.'' @ ''3'' @ ''.'' @ replicate 4300 CHR ''9'')) None None)
       = Inl (ValueError_str (10 ^ 4300))"
    by (rule nines_updated[of 4300 4299]) simp_all
qed

text \<open>
  Claim C9, as the code has it.  Let \<open>v\<close> be the version \<open>get_version\<close> finds and \<open>m\<close>
  the limit on the digits of a conversion.  When \<open>v\<close> has one or two pieces between its
  dots, \<open>get_updated_version\<close> returns \<open>v\<close> followed by \<^verbatim>\<open>.1\<close>, whatever the pieces are.
  When it has three, the call fails exactly when the third piece is refused: it is no
  integer text, or it has more digits than the limit, or its successor has.
  Altogether the call fails exactly when \<open>v\<close> has three pieces of which the third is
  refused, or more than three pieces: the first two pieces never decide.  Without
  a limit, a third piece is refused exactly when it is no integer text.  The versions
  \<^verbatim>\<open>foo\<close> and \<^verbatim>\<open>a.b\<close> give \<^verbatim>\<open>foo.1\<close> and \<^verbatim>\<open>a.b.1\<close>.
\<close>

theorem get_updated_version_content:
  "(get_version e = Inr v \<and> length (str_split CHR ''.'' v) = 1
      \<longrightarrow> get_updated_version m e = Inr (v @ ''.1''))
   \<and> (get_version e = Inr v \<and> length (str_split CHR ''.'' v) = 2
      \<longrightarrow> get_updated_version m e = Inr (v @ ''.1''))
   \<and> (get_version e = Inr v \<and> length (str_split CHR ''.'' v) = 3
      \<longrightarrow> (isl (get_updated_version m e) \<longleftrightarrow> patch_refused m (str_split CHR ''.'' v ! 2)))
   \<and> (get_version e = Inr v
      \<longrightarrow> (isl (get_updated_version m e) \<longleftrightarrow>
             length (str_split CHR ''.'' v) = 3 \<and> patch_refused m (str_split CHR ''.'' v ! 2)
             \<or> 3 < length (str_split CHR ''.'' v)))
   \<and> (get_version e = Inr v
      \<longrightarrow> (isl (get_updated_version 0 e) \<longleftrightarrow>
             length (str_split CHR ''.'' v) = 3 \<and> int_value (str_split CHR ''.'' v ! 2) = None
             \<or> 3 < length (str_split CHR ''.'' v)))
   \<and> (get_version e = Inr ''foo'' \<longrightarrow> get_updated_version m e = Inr ''foo.1'')
   \<and> (get_version e = Inr ''a.b'' \<longrightarrow> get_updated_version m e = Inr ''a.b.1'')"
proof -
  have c1: "get_version e = Inr v \<and> length (str_split CHR ''.'' v) = 1
      \<longrightarrow> get_updated_version m e = Inr (v @ ''.1'')"
  proof (intro impI, elim conjE)
    assume g: "get_version e = Inr v" and l: "length (str_split CHR ''.'' v) = 1"
    from length_one[OF l] obtain a where a: "str_split CHR ''.'' v = [a]" by blast
    then have "a = v" using str_split_one by metis
    then show "get_updated_version m e = Inr (v @ ''.1'')"
      using get_updated_version_Inr[OF g, of m] a by simp
  qed
  have c2: "get_version e = Inr v \<and> length (str_split CHR ''.'' v) = 2
      \<longrightarrow> get_updated_version m e = Inr (v @ ''.1'')"
  proof (intro impI, elim conjE)
    assume g: "get_version e = Inr v" and l: "length (str_split CHR ''.'' v) = 2"
    from length_two[OF l] obtain a b where a: "str_split CHR ''.'' v = [a, b]" by blast
    then have "v = a @ CHR ''.'' # b" using str_split_two by metis
    then show "get_updated_version m e = Inr (v @ ''.1'')"
      using get_updated_version_Inr[OF g, of m] a by simp
  qed
  have three: "isl (get_updated_version k e) \<longleftrightarrow> patch_refused k (str_split CHR ''.'' v ! 2)"
    if "get_version e = Inr v" and "length (str_split CHR ''.'' v) = 3" for k
    using that
    by (auto simp: get_updated_version_Inr patch_refused_iff split: option.splits)
  have c3: "get_version e = Inr v \<and> length (str_split CHR ''.'' v) = 3
      \<longrightarrow> (isl (get_updated_version m e) \<longleftrightarrow> patch_refused m (str_split CHR ''.'' v ! 2))"
    using three by blast
  have all: "isl (get_updated_version k e) \<longleftrightarrow>
             length (str_split CHR ''.'' v) = 3 \<and> patch_refused k (str_split CHR ''.'' v ! 2)
             \<or> 3 < length (str_split CHR ''.'' v)"
    if g: "get_version e = Inr v" for k
  proof -
    have "length (str_split CHR ''.'' v) \<noteq> 0" using str_split_not_Nil by simp
    then consider "length (str_split CHR ''.'' v) = 1" | "length (str_split CHR ''.'' v) = 2"
      | "length (str_split CHR ''.'' v) = 3" | "3 < length (str_split CHR ''.'' v)"
      by linarith
    then show ?thesis
    proof cases
      case 3
      then show ?thesis using three[OF g 3] by simp
    qed (simp_all add: get_updated_version_Inr[OF g])
  qed
  have c4: "get_version e = Inr v
      \<longrightarrow> (isl (get_updated_version m e) \<longleftrightarrow>
             length (str_split CHR ''.'' v) = 3 \<and> patch_refused m (str_split CHR ''.'' v ! 2)
             \<or> 3 < length (str_split CHR ''.'' v))"
    using all by blast
  have c5: "get_version e = Inr v
      \<longrightarrow> (isl (get_updated_version 0 e) \<longleftrightarrow>
             length (str_split CHR ''.'' v) = 3 \<and> int_value (str_split CHR ''.'' v ! 2) = None
             \<or> 3 < length (str_split CHR ''.'' v))"
    using all[of 0] by (simp add: patch_refused_no_limit)
  have e1: "get_version e = Inr ''foo'' \<longrightarrow> get_updated_version m e = Inr ''foo.1''"
    by (simp add: get_updated_version_Inr)
  have e2: "get_version e = Inr ''a.b'' \<longrightarrow> get_updated_version m e = Inr ''a.b.1''"
    by (simp add: get_updated_version_Inr)
  from c1 c2 c3 c4 c5 e1 e2 show ?thesis by blast
qed

text \<open>
  The theorem at the versions \<^verbatim>\<open>x y\<close>, \<^verbatim>\<open>-.?\<close>, \<^verbatim>\<open>a.b.c\<close>, \<^verbatim>\<open>a.b.-2\<close>, \<^verbatim>\<open>foo\<close> and
  \<^verbatim>\<open>a.b\<close>, under the limit 4300 and without a limit.
\<close>

theorem get_updated_version_content_witness:
  "length (str_split CHR ''.'' ''x y'') = 1
   \<and> get_updated_version 4300 (soft5_with None (Some ''x y'') None None) = Inr ''x y.1''
   \<and> length (str_split CHR ''.'' ''-.?'') = 2
   \<and> get_updated_version 4300 (soft5_with None (Some ''-.?'') None None) = Inr ''-.?.1''
   \<and> length (str_split CHR ''.'' ''a.b.c'') = 3 \<and> patch_refused 4300 (str_split CHR ''.'' ''a.b.c'' ! 2)
   \<and> isl (get_updated_version 4300 (soft5_with None (Some ''a.b.c'') None None))
   \<and> length (str_split CHR ''.'' ''a.b.-2'') = 3
   \<and> \<not> patch_refused 4300 (str_split CHR ''.'' ''a.b.-2'' ! 2)
   \<and> \<not> isl (get_updated_version 4300 (soft5_with None (Some ''a.b.-2'') None None))
   \<and> isl (get_updated_version 0 (soft5_with None (Some ''a.b.c'') None None))
   \<and> get_updated_version 4300 (soft5_with None (Some ''foo'') None None) = Inr ''foo.1''
   \<and> get_updated_version 4300 (soft5_with None (Some ''a.b'') None None) = Inr ''a.b.1''"
proof -
  have gv: "\<And>v. get_version (soft5_with None (Some v) None None) = Inr v"
    by (rule get_version_soft5_with)
  have p: "patch_refused 4300 (str_split CHR ''.'' ''a.b.c'' ! 2)"
    "\<not> patch_refused 4300 (str_split CHR ''.'' ''a.b.-2'' ! 2)"
    "int_value (str_split CHR ''.'' ''a.b.c'' ! 2) = None"
    by (simp_all add: patch_refused_def int_value_def str_strip_def is_int_space_def
        int_literal_def is_digit_def digit_value_def exceeds_max_str_digits_def int_text_def
        nat_digits.simps digit_char_def)
  have l: "length (str_split CHR ''.'' ''x y'') = 1" "length (str_split CHR ''.'' ''-.?'') = 2"
    "length (str_split CHR ''.'' ''a.b.c'') = 3" "length (str_split CHR ''.'' ''a.b.-2'') = 3"
    by simp_all
  have a1: "get_updated_version 4300 (soft5_with None (Some ''x y'') None None) = Inr ''x y.1''"
    using gv l get_updated_version_content[where e = "soft5_with None (Some ''x y'') None None"
        and v = "''x y''" and m = 4300, THEN conj_1]
    by simp
  have a2: "get_updated_version 4300 (soft5_with None (Some ''-.?'') None None) = Inr ''-.?.1''"
    using gv l get_updated_version_content[where e = "soft5_with None (Some ''-.?'') None None"
        and v = "''-.?''" and m = 4300, THEN conj_2]
    by simp
  have a3: "isl (get_updated_version 4300 (soft5_with None (Some ''a.b.c'') None None))"
    using gv l p get_updated_version_content[where e = "soft5_with None (Some ''a.b.c'') None None"
        and v = "''a.b.c''" and m = 4300, THEN conj_3]
    by simp
  have a4: "\<not> isl (get_updated_version 4300 (soft5_with None (Some ''a.b.-2'') None None))"
    using gv l p get_updated_version_content[where e = "soft5_with None (Some ''a.b.-2'') None None"
        and v = "''a.b.-2''" and m = 4300, THEN conj_4]
    by simp
  have a5: "isl (get_updated_version 0 (soft5_with None (Some ''a.b.c'') None None))"
    using gv l p get_updated_version_content[where e = "soft5_with None (Some ''a.b.c'') None None"
        and v = "''a.b.c''", THEN conj_5]
    by simp
  have a6: "get_updated_version 4300 (soft5_with None (Some ''foo'') None None) = Inr ''foo.1''"
    using gv get_updated_version_content[where e = "soft5_with None (Some ''foo'') None None"
        and m = 4300, THEN conj_6]
    by simp
  have a7: "get_updated_version 4300 (soft5_with None (Some ''a.b'') None None) = Inr ''a.b.1''"
    using gv get_updated_version_content[where e = "soft5_with None (Some ''a.b'') None None"
        and m = 4300, THEN conjunct2, THEN conjunct2, THEN conjunct2, THEN conjunct2,
        THEN conjunct2, THEN conjunct2]
    by simp
  show ?thesis using l p(1,2) a1 a2 a3 a4 a5 a6 a7 by simp
qed

text \<open>
  Claim C9 as it is written fails on the code under the limit 4300: a third piece that
  is an integer can make the call fail.  The piece of 4300 nines is read by \<^verbatim>\<open>int\<close> and
  its successor is refused by \<^verbatim>\<open>str\<close>; the piece of 4301 ones is an integer text that
  \<^verbatim>\<open>int\<close> refuses.
\<close>

theorem get_updated_version_content_counterexample:
  "int_value (replicate 4300 CHR ''9'') = Some (10 ^ 4300 - 1)
   \<and> isl (get_updated_version 4300
        (soft5_with None (Some (''a'' @ ''.'' @ ''b'' @ ''.'' @ replicate 4300 CHR ''9'')) None None))
   \<and> int_value (replicate 4301 CHR ''1'') \<noteq> None
   \<and> isl (get_updated_version 4300
        (soft5_with None (Some (''a'' @ ''.'' @ ''b'' @ ''.'' @ replicate 4301 CHR ''1'')) None None))"
proof (intro conjI)
  show "int_value (replicate 4300 CHR ''9'') = Some (10 ^ 4300 - 1)"
    by (rule int_value_nines[of 4300 4299]) simp
  have "get_updated_version 4300
        (soft5_with None (Some (''a'' @ ''.'' @ ''b'' @ ''.'' @ replicate 4300 CHR ''9'')) None None)
       = Inl (ValueError_str (10 ^ 4300))"
    by (rule nines_updated[of 4300 4299]) simp_all
  then show "isl (get_updated_version 4300
        (soft5_with None (Some (''a'' @ ''.'' @ ''b'' @ ''.'' @ replicate 4300 CHR ''9'')) None None))"
    by (simp only: sum.disc)
  have "replicate 4301 CHR ''1'' \<noteq> []"
    by (simp only: replicate_empty)
  then show "int_value (replicate 4301 CHR ''1'') \<noteq> None"
    by (rule int_value_digits[OF replicate_digits[OF is_digit_one]])
  have "get_updated_version 4300
        (soft5_with None (Some (''a'' @ ''.'' @ ''b'' @ ''.'' @ replicate 4301 CHR ''1'')) None None)
       = Inl (ValueError_int (replicate 4301 CHR ''1''))"
    by (rule many_digits_updated[of 4300 4301]) (simp_all add: is_digit_def)
  then show "isl (get_updated_version 4300
        (soft5_with None (Some (''a'' @ ''.'' @ ''b'' @ ''.'' @ replicate 4301 CHR ''1'')) None None))"
    by (simp only: sum.disc)
qed

section \<open>The claims on the resolver and the dialects\<close>

text \<open>
  Claim C2.  \<open>soft_entity\<close> tries \<^verbatim>\<open>SOFT7Entity\<close> first and \<^verbatim>\<open>SOFT5Entity\<close> second, and
  returns the entity of the first class that validates the document: the SOFT7 entity
  when that validation succeeds, whatever the SOFT5 one would say, and the SOFT5 entity
  when only that one succeeds.  When both fail, with \<open>return_errors\<close> it returns the
  list of the two validation errors, in the order of the classes, one for each class;
  without it, it raises the \<^verbatim>\<open>ValueError\<close> made of that same list.  An entity is
  returned only when some class validates the document, and a list of errors only when
  none does.
\<close>

theorem soft_entity_first_dialect:
  "(S7 d = Inr e7 \<longrightarrow> soft_entity S7 url CONFIG return_errors d = Inr (Entity (SOFT7 e7)))
   \<and> (S7 d = Inl x7 \<and> SOFT5Entity_validate url CONFIG d = Inr e5
        \<longrightarrow> soft_entity S7 url CONFIG return_errors d = Inr (Entity (SOFT5 e5)))
   \<and> (S7 d = Inl x7 \<and> SOFT5Entity_validate url CONFIG d = Inl x5
        \<longrightarrow> soft_entity S7 url CONFIG True d = Inr (Errors [x7, x5])
            \<and> soft_entity S7 url CONFIG False d = Inl (ValueError_instantiate [x7, x5])
            \<and> length [x7, x5] = length (versioned_entity_classes S7 url CONFIG))
   \<and> (soft_entity S7 url CONFIG return_errors d = Inr (Entity e)
        \<longrightarrow> \<not> (isl (S7 d) \<and> isl (SOFT5Entity_validate url CONFIG d)))
   \<and> (soft_entity S7 url CONFIG return_errors d = Inr (Errors es)
        \<longrightarrow> isl (S7 d) \<and> isl (SOFT5Entity_validate url CONFIG d))"
  by (auto simp: soft_entity_cases versioned_entity_classes_def split: sum.splits if_splits)

text \<open>
  The theorem with the stand-in for SOFT7: at a document the stand-in accepts, at
  \<open>mixed_document\<close>, which only SOFT5 accepts, and at the empty document, which none
  accepts.
\<close>

theorem soft_entity_first_dialect_witness:
  "soft_entity soft7_stand_in Some default_settings False [(''properties'', PDict [])]
     = Inr (Entity (SOFT7 \<lparr>SOFT7Entity.name = None, SOFT7Entity.version = None,
                SOFT7Entity.namespace = None, SOFT7Entity.uri = None,
                SOFT7Entity.meta = EntitySchema_uri, body = ()\<rparr>))
   \<and> soft_entity soft7_stand_in Some default_settings False mixed_document
     = Inr (Entity (SOFT5 mixed_entity))
   \<and> soft_entity soft7_stand_in Some default_settings True []
     = Inr (Errors [ValidationError [([Key ''properties''], model_type)],
                    ValidationError [([Key ''properties''], missing)]])
   \<and> soft_entity soft7_stand_in Some default_settings False []
     = Inl (ValueError_instantiate [ValidationError [([Key ''properties''], model_type)],
                    ValidationError [([Key ''properties''], missing)]])
   \<and> \<not> (isl (soft7_stand_in mixed_document)
          \<and> isl (SOFT5Entity_validate Some default_settings mixed_document))
   \<and> isl (soft7_stand_in []) \<and> isl (SOFT5Entity_validate Some default_settings [])"
proof -
  have a: "soft7_stand_in [(''properties'', PDict [])]
     = Inr \<lparr>SOFT7Entity.name = None, SOFT7Entity.version = None,
                SOFT7Entity.namespace = None, SOFT7Entity.uri = None,
                SOFT7Entity.meta = EntitySchema_uri, body = ()\<rparr>"
    by (simp add: soft7_stand_in_def)
  have b: "soft7_stand_in [] = Inl (ValidationError [([Key ''properties''], model_type)])"
    by (simp add: soft7_stand_in_def)
  have c: "SOFT5Entity_validate Some default_settings [] = Inl (ValidationError [([Key ''properties''], missing)])"
    by (simp add: validate_defs)
  show ?thesis
    using a b c soft7_stand_in_mixed mixed_document_Some
      soft_entity_first_dialect[where ?S7.0 = soft7_stand_in and url = Some and CONFIG = default_settings
        and return_errors = False and d = "[(''properties'', PDict [])]"
        and ?e7.0 = "\<lparr>SOFT7Entity.name = None, SOFT7Entity.version = None,
                SOFT7Entity.namespace = None, SOFT7Entity.uri = None,
                SOFT7Entity.meta = EntitySchema_uri, body = ()\<rparr>"]
      soft_entity_first_dialect[where ?S7.0 = soft7_stand_in and url = Some and CONFIG = default_settings
        and return_errors = False and d = mixed_document and ?e5.0 = mixed_entity
        and ?x7.0 = "ValidationError [([Key ''properties''], model_type)]"
        and e = "SOFT5 mixed_entity"]
      soft_entity_first_dialect[where ?S7.0 = soft7_stand_in and url = Some and CONFIG = default_settings
        and return_errors = True and d = "[]"
        and ?x7.0 = "ValidationError [([Key ''properties''], model_type)]"
        and ?x5.0 = "ValidationError [([Key ''properties''], missing)]"
        and es = "[ValidationError [([Key ''properties''], model_type)],
                    ValidationError [([Key ''properties''], missing)]]"]
    by simp
qed

text \<open>
  Claim C4.  An entity that the validation of \<^verbatim>\<open>SOFT5Entity\<close> returns, and so every
  SOFT5 entity that \<open>soft_entity\<close> returns, has a \<open>uri\<close> and a \<open>namespace\<close> that start
  with the base URL when they are set, and has the supported schema URI as \<open>meta\<close>.  The
  same holds of every entity that \<open>soft_entity\<close> returns, provided the validation of
  \<^verbatim>\<open>SOFT7Entity\<close>, which is a parameter here, returns only such entities.  A document
  whose \<open>uri\<close> or \<open>namespace\<close> is a URL that does not start with the base URL, or whose
  \<open>meta\<close> is a URL other than the supported one, is rejected by the SOFT5 validation.
  A rejection by SOFT5 is no failure of the resolver: with \<open>return_errors\<close> it still
  returns, and what it returns is not a SOFT5 entity.
\<close>

theorem resolved_entity_invariant:
  "(SOFT5Entity_validate url CONFIG d = Inr e5 \<longrightarrow> dialect_invariant CONFIG (SOFT5 e5))
   \<and> (soft_entity S7 url CONFIG return_errors d = Inr (Entity (SOFT5 e5))
        \<longrightarrow> dialect_invariant CONFIG (SOFT5 e5))
   \<and> ((\<forall>d' e7. S7 d' = Inr e7 \<longrightarrow> dialect_invariant CONFIG (SOFT7 e7))
        \<and> soft_entity S7 url CONFIG return_errors d = Inr (Entity e)
        \<longrightarrow> dialect_invariant CONFIG e)
   \<and> (map_of d ''uri'' = Some (PStr s) \<and> url s = Some u \<and> \<not> startswith u (base_url CONFIG)
        \<longrightarrow> isl (SOFT5Entity_validate url CONFIG d))
   \<and> (map_of d ''namespace'' = Some (PStr s) \<and> url s = Some u \<and> \<not> startswith u (base_url CONFIG)
        \<longrightarrow> isl (SOFT5Entity_validate url CONFIG d))
   \<and> (map_of d ''meta'' = Some (PStr s) \<and> url s = Some u \<and> u \<noteq> EntitySchema_uri
        \<longrightarrow> isl (SOFT5Entity_validate url CONFIG d))
   \<and> (isl (SOFT5Entity_validate url CONFIG d)
        \<longrightarrow> \<not> isl (soft_entity S7 url CONFIG True d)
            \<and> soft_entity S7 url CONFIG return_errors d \<noteq> Inr (Entity (SOFT5 e5)))"
proof -
  have c1: "SOFT5Entity_validate url CONFIG d = Inr e5 \<longrightarrow> dialect_invariant CONFIG (SOFT5 e5)"
    using SOFT5Entity_validate_invariant by blast
  have c2: "soft_entity S7 url CONFIG return_errors d = Inr (Entity (SOFT5 e5))
        \<longrightarrow> dialect_invariant CONFIG (SOFT5 e5)"
    using SOFT5Entity_validate_invariant[of url CONFIG d e5]
    by (auto simp: soft_entity_cases split: sum.splits if_splits)
  have c3: "(\<forall>d' e7. S7 d' = Inr e7 \<longrightarrow> dialect_invariant CONFIG (SOFT7 e7))
        \<and> soft_entity S7 url CONFIG return_errors d = Inr (Entity e)
        \<longrightarrow> dialect_invariant CONFIG e"
    using SOFT5Entity_validate_invariant[of url CONFIG d]
    by (auto simp: soft_entity_cases split: sum.splits if_splits)
  have c4: "map_of d ''uri'' = Some (PStr s) \<and> url s = Some u \<and> \<not> startswith u (base_url CONFIG)
        \<longrightarrow> isl (SOFT5Entity_validate url CONFIG d)"
    using SOFT5Entity_rejects_uri by blast
  have c5: "map_of d ''namespace'' = Some (PStr s) \<and> url s = Some u \<and> \<not> startswith u (base_url CONFIG)
        \<longrightarrow> isl (SOFT5Entity_validate url CONFIG d)"
    using SOFT5Entity_rejects_namespace by blast
  have c6: "map_of d ''meta'' = Some (PStr s) \<and> url s = Some u \<and> u \<noteq> EntitySchema_uri
        \<longrightarrow> isl (SOFT5Entity_validate url CONFIG d)"
    using SOFT5Entity_rejects_meta by blast
  have c7: "isl (SOFT5Entity_validate url CONFIG d)
        \<longrightarrow> \<not> isl (soft_entity S7 url CONFIG True d)
            \<and> soft_entity S7 url CONFIG return_errors d \<noteq> Inr (Entity (SOFT5 e5))"
    by (auto simp: soft_entity_cases split: sum.splits if_splits)
  from c1 c2 c3 c4 c5 c6 c7 show ?thesis by blast
qed

text \<open>
  The theorem with the stand-in for SOFT7 and the default settings: at
  \<open>mixed_document\<close>, and at documents with a \<open>uri\<close>, a \<open>namespace\<close> and a \<open>meta\<close> of
  other sites.
\<close>

theorem resolved_entity_invariant_witness:
  "dialect_invariant default_settings (SOFT5 mixed_entity :: unit VersionedSOFTEntity)
   \<and> soft_entity soft7_stand_in Some default_settings False mixed_document
       = Inr (Entity (SOFT5 mixed_entity))
   \<and> \<not> startswith ''http://example.org/1.0/A'' (base_url default_settings)
   \<and> isl (SOFT5Entity_validate Some default_settings
            [(''uri'', PStr ''http://example.org/1.0/A''), (''properties'', PList [])])
   \<and> isl (SOFT5Entity_validate Some default_settings
            [(''name'', PStr ''A''), (''version'', PStr ''1.0''),
             (''namespace'', PStr ''http://example.org''), (''properties'', PList [])])
   \<and> isl (SOFT5Entity_validate Some default_settings
            [(''meta'', PStr ''http://onto-ns.com/meta/0.1/EntitySchema''), (''properties'', PList [])])
   \<and> \<not> isl (soft_entity soft7_stand_in Some default_settings True
            [(''uri'', PStr ''http://example.org/1.0/A''), (''properties'', PList [])])"
proof -
  let ?bad_uri = "[(''uri'', PStr ''http://example.org/1.0/A''), (''properties'', PList [])]"
  let ?bad_ns = "[(''name'', PStr ''A''), (''version'', PStr ''1.0''),
             (''namespace'', PStr ''http://example.org''), (''properties'', PList [])]"
  let ?bad_meta = "[(''meta'', PStr ''http://onto-ns.com/meta/0.1/EntitySchema''), (''properties'', PList [])]"
  have s7: "\<forall>d' e7. soft7_stand_in d' = Inr e7 \<longrightarrow> dialect_invariant default_settings (SOFT7 e7)"
    using soft7_stand_in_invariant by blast
  have r: "soft_entity soft7_stand_in Some default_settings False mixed_document
       = Inr (Entity (SOFT5 mixed_entity))"
    using soft7_stand_in_mixed mixed_document_Some by (simp add: soft_entity_cases)
  have n: "\<not> startswith ''http://example.org/1.0/A'' (base_url default_settings)"
    "\<not> startswith ''http://example.org'' (base_url default_settings)"
    "''http://onto-ns.com/meta/0.1/EntitySchema'' \<noteq> EntitySchema_uri"
    by (simp_all add: default_settings_def EntitySchema_uri_def)
  have a: "dialect_invariant default_settings (SOFT5 mixed_entity :: unit VersionedSOFTEntity)"
    using s7 r
      resolved_entity_invariant[where ?S7.0 = soft7_stand_in and url = Some
        and CONFIG = default_settings and return_errors = False and d = mixed_document
        and e = "SOFT5 mixed_entity", THEN conj_3]
    by simp
  have b: "isl (SOFT5Entity_validate Some default_settings ?bad_uri)"
    using n
      resolved_entity_invariant[where url = Some and CONFIG = default_settings and d = ?bad_uri
        and s = "''http://example.org/1.0/A''" and u = "''http://example.org/1.0/A''", THEN conj_4]
    by simp
  have c: "isl (SOFT5Entity_validate Some default_settings ?bad_ns)"
    using n
      resolved_entity_invariant[where url = Some and CONFIG = default_settings and d = ?bad_ns
        and s = "''http://example.org''" and u = "''http://example.org''", THEN conj_5]
    by simp
  have d: "isl (SOFT5Entity_validate Some default_settings ?bad_meta)"
    using n
      resolved_entity_invariant[where url = Some and CONFIG = default_settings and d = ?bad_meta
        and s = "''http://onto-ns.com/meta/0.1/EntitySchema''"
        and u = "''http://onto-ns.com/meta/0.1/EntitySchema''", THEN conj_6]
    by simp
  have e: "\<not> isl (soft_entity soft7_stand_in Some default_settings True ?bad_uri)"
    using b
      resolved_entity_invariant[where ?S7.0 = soft7_stand_in and url = Some
        and CONFIG = default_settings and d = ?bad_uri, THEN conjunct2, THEN conjunct2,
        THEN conjunct2, THEN conjunct2, THEN conjunct2, THEN conjunct2]
    by simp
  show ?thesis using a r n(1) b c d e by simp
qed

text \<open>
  Claim C5.  A field counts as present in a document when \<^verbatim>\<open>data.get\<close> of its key is
  not \<^verbatim>\<open>None\<close>.  The validation of \<^verbatim>\<open>SOFT5Entity\<close> accepts a document only if \<open>name\<close>,
  \<open>version\<close> and \<open>namespace\<close> are all three present or all three absent; a document in
  which one of them is present and one of them absent is rejected, for instance one
  with a name and a version and no namespace, which \<open>soft_entity\<close> therefore never
  returns as a SOFT5 entity.
\<close>

theorem jointly_present_or_absent:
  "(SOFT5Entity_validate url CONFIG d = Inr e
      \<longrightarrow> dict_get d ''name'' \<noteq> PNone \<and> dict_get d ''version'' \<noteq> PNone
            \<and> dict_get d ''namespace'' \<noteq> PNone
          \<or> dict_get d ''name'' = PNone \<and> dict_get d ''version'' = PNone
            \<and> dict_get d ''namespace'' = PNone)
   \<and> ((dict_get d ''name'' \<noteq> PNone \<or> dict_get d ''version'' \<noteq> PNone
          \<or> dict_get d ''namespace'' \<noteq> PNone)
        \<and> (dict_get d ''name'' = PNone \<or> dict_get d ''version'' = PNone
          \<or> dict_get d ''namespace'' = PNone)
      \<longrightarrow> isl (SOFT5Entity_validate url CONFIG d))
   \<and> (dict_get d ''name'' \<noteq> PNone \<and> dict_get d ''version'' \<noteq> PNone
        \<and> dict_get d ''namespace'' = PNone
      \<longrightarrow> isl (SOFT5Entity_validate url CONFIG d)
          \<and> soft_entity S7 url CONFIG return_errors d \<noteq> Inr (Entity (SOFT5 e)))"
proof -
  have c1: "SOFT5Entity_validate url CONFIG d = Inr e
      \<longrightarrow> dict_get d ''name'' \<noteq> PNone \<and> dict_get d ''version'' \<noteq> PNone
            \<and> dict_get d ''namespace'' \<noteq> PNone
          \<or> dict_get d ''name'' = PNone \<and> dict_get d ''version'' = PNone
            \<and> dict_get d ''namespace'' = PNone"
    by (auto simp: SOFT5Entity_validate_Inr check_cross_dependent_fields_Inr_iff)
  have r: "isl (SOFT5Entity_validate url CONFIG d)"
    if "check_cross_dependent_fields d \<noteq> Inr d"
    using that by (auto simp: isl_iff_not_Inr SOFT5Entity_validate_Inr)
  have c2: "(dict_get d ''name'' \<noteq> PNone \<or> dict_get d ''version'' \<noteq> PNone
          \<or> dict_get d ''namespace'' \<noteq> PNone)
        \<and> (dict_get d ''name'' = PNone \<or> dict_get d ''version'' = PNone
          \<or> dict_get d ''namespace'' = PNone)
      \<longrightarrow> isl (SOFT5Entity_validate url CONFIG d)"
    using r by (auto simp: check_cross_dependent_fields_Inr_iff)
  have c3: "dict_get d ''name'' \<noteq> PNone \<and> dict_get d ''version'' \<noteq> PNone
        \<and> dict_get d ''namespace'' = PNone
      \<longrightarrow> isl (SOFT5Entity_validate url CONFIG d)
          \<and> soft_entity S7 url CONFIG return_errors d \<noteq> Inr (Entity (SOFT5 e))"
    using c2 by (auto simp: soft_entity_cases split: sum.splits if_splits)
  from c1 c2 c3 show ?thesis by blast
qed

text \<open>
  The theorem at \<open>mixed_document\<close>, at a document with a name and a version only, and at
  one whose name is \<^verbatim>\<open>None\<close> next to a namespace.
\<close>

theorem jointly_present_or_absent_witness:
  "SOFT5Entity_validate Some default_settings mixed_document = Inr mixed_entity
   \<and> dict_get mixed_document ''name'' \<noteq> PNone \<and> dict_get mixed_document ''version'' \<noteq> PNone
   \<and> dict_get mixed_document ''namespace'' \<noteq> PNone
   \<and> dict_get [(''name'', PStr ''A''), (''version'', PStr ''1.0''), (''properties'', PList [])] ''namespace'' = PNone
   \<and> isl (SOFT5Entity_validate Some default_settings
            [(''name'', PStr ''A''), (''version'', PStr ''1.0''), (''properties'', PList [])])
   \<and> isl (SOFT5Entity_validate Some default_settings
            [(''name'', PNone), (''namespace'', PStr ''http://onto-ns.com/meta''), (''properties'', PList [])])"
proof -
  let ?d1 = "[(''name'', PStr ''A''), (''version'', PStr ''1.0''), (''properties'', PList [])]"
  let ?d2 = "[(''name'', PNone), (''namespace'', PStr ''http://onto-ns.com/meta''), (''properties'', PList [])]"
  have g: "dict_get mixed_document ''name'' \<noteq> PNone" "dict_get mixed_document ''version'' \<noteq> PNone"
    "dict_get mixed_document ''namespace'' \<noteq> PNone"
    "dict_get ?d1 ''name'' \<noteq> PNone" "dict_get ?d1 ''version'' \<noteq> PNone" "dict_get ?d1 ''namespace'' = PNone"
    "dict_get ?d2 ''name'' = PNone" "dict_get ?d2 ''namespace'' \<noteq> PNone"
    by (simp_all add: dict_get_def mixed_document_def)
  have a: "isl (SOFT5Entity_validate Some default_settings ?d1)"
    using g jointly_present_or_absent[where url = Some and CONFIG = default_settings and d = ?d1,
        THEN conj_2]
    by simp
  have b: "isl (SOFT5Entity_validate Some default_settings ?d2)"
    using g jointly_present_or_absent[where url = Some and CONFIG = default_settings and d = ?d2,
        THEN conj_2]
    by simp
  have c: "dict_get mixed_document ''name'' \<noteq> PNone \<and> dict_get mixed_document ''version'' \<noteq> PNone
            \<and> dict_get mixed_document ''namespace'' \<noteq> PNone
          \<or> dict_get mixed_document ''name'' = PNone \<and> dict_get mixed_document ''version'' = PNone
            \<and> dict_get mixed_document ''namespace'' = PNone"
    using mixed_document_Some
      jointly_present_or_absent[where url = Some and CONFIG = default_settings and d = mixed_document
        and e = mixed_entity, THEN conj_1]
    by simp
  show ?thesis using g a b c mixed_document_Some by simp
qed

text \<open>
  Claim C10.  \<open>get_uri\<close> returns the attribute \<open>uri\<close> whenever it is set, whatever the
  namespace, the version and the name are; only when it is not set, the result is the
  three of them joined by slashes.  No validation relates the \<open>uri\<close> to the three: a
  document that SOFT5 accepts is still accepted with any \<open>uri\<close> put in front that is a
  URL starting with the base URL, and the entity differs in its \<open>uri\<close> only.  For
  instance \<open>mixed_document\<close> is accepted (by a URL parser that leaves its two URLs as
  they are) and resolved to \<open>mixed_entity\<close>, whose \<open>uri\<close> ends with \<^verbatim>\<open>1.0/A\<close> while its
  namespace, version and name build a URI that ends with \<^verbatim>\<open>2.0/B\<close>.
\<close>

theorem get_uri_prefers_uri:
  "(entity_uri e = Some u \<longrightarrow> get_uri e = u)
   \<and> (entity_uri e = None
        \<longrightarrow> get_uri e = py_str (entity_namespace e) @ ''/'' @ py_str (entity_version e)
              @ ''/'' @ py_str (entity_name e))
   \<and> (entity_uri e = None \<and> entity_namespace e = Some ns \<and> entity_version e = Some v
        \<and> entity_name e = Some n
        \<longrightarrow> get_uri e = ns @ ''/'' @ v @ ''/'' @ n)
   \<and> (SOFT5Entity_validate url CONFIG d = Inr e5 \<and> url s = Some u' \<and> startswith u' (base_url CONFIG)
        \<longrightarrow> SOFT5Entity_validate url CONFIG ((''uri'', PStr s) # d) = Inr (e5\<lparr>uri := Some u'\<rparr>))
   \<and> (url ''http://onto-ns.com/meta/1.0/A'' = Some ''http://onto-ns.com/meta/1.0/A''
        \<and> url ''http://onto-ns.com/meta'' = Some ''http://onto-ns.com/meta''
        \<longrightarrow> SOFT5Entity_validate url default_settings mixed_document = Inr mixed_entity)
   \<and> (url ''http://onto-ns.com/meta/1.0/A'' = Some ''http://onto-ns.com/meta/1.0/A''
        \<and> url ''http://onto-ns.com/meta'' = Some ''http://onto-ns.com/meta''
        \<and> isl (S7 mixed_document)
        \<longrightarrow> soft_entity S7 url default_settings return_errors mixed_document
              = Inr (Entity (SOFT5 mixed_entity)))
   \<and> get_uri (SOFT5 mixed_entity) = ''http://onto-ns.com/meta/1.0/A''
   \<and> get_uri (SOFT5 (mixed_entity\<lparr>uri := None\<rparr>)) = ''http://onto-ns.com/meta/2.0/B''"
proof -
  have c1: "entity_uri e = Some u \<longrightarrow> get_uri e = u"
    by (simp add: get_uri_def)
  have c2: "entity_uri e = None
        \<longrightarrow> get_uri e = py_str (entity_namespace e) @ ''/'' @ py_str (entity_version e)
              @ ''/'' @ py_str (entity_name e)"
    by (simp add: get_uri_def)
  have c3: "entity_uri e = None \<and> entity_namespace e = Some ns \<and> entity_version e = Some v
        \<and> entity_name e = Some n
        \<longrightarrow> get_uri e = ns @ ''/'' @ v @ ''/'' @ n"
    by (simp add: get_uri_def py_str_def)
  have c4: "SOFT5Entity_validate url CONFIG d = Inr e5 \<and> url s = Some u' \<and> startswith u' (base_url CONFIG)
        \<longrightarrow> SOFT5Entity_validate url CONFIG ((''uri'', PStr s) # d) = Inr (e5\<lparr>uri := Some u'\<rparr>)"
    using SOFT5Entity_uri_independent by blast
  have c5: "url ''http://onto-ns.com/meta/1.0/A'' = Some ''http://onto-ns.com/meta/1.0/A''
        \<and> url ''http://onto-ns.com/meta'' = Some ''http://onto-ns.com/meta''
        \<longrightarrow> SOFT5Entity_validate url default_settings mixed_document = Inr mixed_entity"
    using mixed_document_valid by blast
  have c6: "url ''http://onto-ns.com/meta/1.0/A'' = Some ''http://onto-ns.com/meta/1.0/A''
        \<and> url ''http://onto-ns.com/meta'' = Some ''http://onto-ns.com/meta''
        \<and> isl (S7 mixed_document)
        \<longrightarrow> soft_entity S7 url default_settings return_errors mixed_document
              = Inr (Entity (SOFT5 mixed_entity))"
    using mixed_document_valid[of url] by (auto simp: soft_entity_cases split: sum.splits)
  have c7: "get_uri (SOFT5 mixed_entity) = ''http://onto-ns.com/meta/1.0/A''"
    by (simp add: get_uri_def mixed_entity_def)
  have c8: "get_uri (SOFT5 (mixed_entity\<lparr>uri := None\<rparr>)) = ''http://onto-ns.com/meta/2.0/B''"
    by (simp add: get_uri_def mixed_entity_def py_str_def)
  from c1 c2 c3 c4 c5 c6 c7 c8 show ?thesis by blast
qed

text \<open>
  The theorem at entities with and without a \<open>uri\<close>, at the document with nothing but
  an empty list of properties, and at \<open>mixed_document\<close> with the stand-in for SOFT7.
\<close>

theorem get_uri_prefers_uri_witness:
  "get_uri (soft5_with (Some ''B'') (Some ''2.0'') (Some ''http://onto-ns.com/meta'')
              (Some ''http://onto-ns.com/meta/1.0/A'')) = ''http://onto-ns.com/meta/1.0/A''
   \<and> get_uri (soft5_with (Some ''B'') None None None) = ''None/None/B''
   \<and> get_uri (soft5_with (Some ''B'') (Some ''2.0'') (Some ''http://onto-ns.com/meta'') None)
       = ''http://onto-ns.com/meta/2.0/B''
   \<and> SOFT5Entity_validate Some default_settings [(''properties'', PList [])]
       = Inr \<lparr>name = None, version = None, namespace = None, uri = None, meta = EntitySchema_uri,
              description = [], dimensions = [], properties = []\<rparr>
   \<and> startswith ''http://onto-ns.com/meta/9/Z'' (base_url default_settings)
   \<and> SOFT5Entity_validate Some default_settings
         [(''uri'', PStr ''http://onto-ns.com/meta/9/Z''), (''properties'', PList [])]
       = Inr \<lparr>name = None, version = None, namespace = None,
              uri = Some ''http://onto-ns.com/meta/9/Z'', meta = EntitySchema_uri,
              description = [], dimensions = [], properties = []\<rparr>
   \<and> SOFT5Entity_validate Some default_settings mixed_document = Inr mixed_entity
   \<and> isl (soft7_stand_in mixed_document)
   \<and> soft_entity soft7_stand_in Some default_settings False mixed_document
       = Inr (Entity (SOFT5 mixed_entity))"
proof -
  have v: "SOFT5Entity_validate Some default_settings [(''properties'', PList [])]
       = Inr \<lparr>name = None, version = None, namespace = None, uri = None, meta = EntitySchema_uri,
              description = [], dimensions = [], properties = []\<rparr>"
    by (simp add: validate_defs)
  have b: "startswith ''http://onto-ns.com/meta/9/Z'' (base_url default_settings)"
    by (simp add: default_settings_def)
  have i: "isl (soft7_stand_in mixed_document)" by (simp add: soft7_stand_in_mixed)
  have a: "get_uri (soft5_with (Some ''B'') (Some ''2.0'') (Some ''http://onto-ns.com/meta'')
              (Some ''http://onto-ns.com/meta/1.0/A'')) = ''http://onto-ns.com/meta/1.0/A''"
    using get_uri_prefers_uri[where e = "soft5_with (Some ''B'') (Some ''2.0'')
        (Some ''http://onto-ns.com/meta'') (Some ''http://onto-ns.com/meta/1.0/A'')"
        and u = "''http://onto-ns.com/meta/1.0/A''", THEN conj_1]
    by (simp add: soft5_with_simps)
  have c: "get_uri (soft5_with (Some ''B'') None None None) = ''None/None/B''"
    using get_uri_prefers_uri[where e = "soft5_with (Some ''B'') None None None", THEN conj_2]
    by (simp add: soft5_with_simps py_str_def)
  have d: "get_uri (soft5_with (Some ''B'') (Some ''2.0'') (Some ''http://onto-ns.com/meta'') None)
       = ''http://onto-ns.com/meta/2.0/B''"
    using get_uri_prefers_uri[where e = "soft5_with (Some ''B'') (Some ''2.0'')
        (Some ''http://onto-ns.com/meta'') None"
        and ns = "''http://onto-ns.com/meta''" and v = "''2.0''" and n = "''B''", THEN conj_3]
    by (simp add: soft5_with_simps)
  have e: "SOFT5Entity_validate Some default_settings
         [(''uri'', PStr ''http://onto-ns.com/meta/9/Z''), (''properties'', PList [])]
       = Inr \<lparr>name = None, version = None, namespace = None,
              uri = Some ''http://onto-ns.com/meta/9/Z'', meta = EntitySchema_uri,
              description = [], dimensions = [], properties = []\<rparr>"
    using v b
      get_uri_prefers_uri[where url = Some and CONFIG = default_settings
        and d = "[(''properties'', PList [])]"
        and ?e5.0 = "\<lparr>name = None, version = None, namespace = None, uri = None, meta = EntitySchema_uri,
              description = [], dimensions = [], properties = []\<rparr>"
        and s = "''http://onto-ns.com/meta/9/Z''" and u' = "''http://onto-ns.com/meta/9/Z''",
        THEN conj_4]
    by simp
  have f: "SOFT5Entity_validate Some default_settings mixed_document = Inr mixed_entity"
    using get_uri_prefers_uri[where url = Some, THEN conj_5] by simp
  have g: "soft_entity soft7_stand_in Some default_settings False mixed_document
       = Inr (Entity (SOFT5 mixed_entity))"
    using i get_uri_prefers_uri[where url = Some and ?S7.0 = soft7_stand_in
        and return_errors = False, THEN conj_6]
    by simp
  show ?thesis using a c d v b e f i g by simp
qed

section \<open>The claims on the backend\<close>

text \<open>
  Claim C6.  \<open>close\<close> raises \<^verbatim>\<open>BackendError\<close> exactly when the instance is closed
  already, and then leaves the instance as it is.  On an open instance it returns and
  sets \<open>attr_is_closed\<close>, changing nothing else.  A closed instance stays closed under
  every operation that \<^verbatim>\<open>Backend\<close> has, and so under every run of them; after a
  run that starts with \<open>Close\<close> the instance is closed.  A new instance is open.
\<close>

theorem close_is_terminal:
  "(fst (close self) = Inl (BackendError ''Backend is already closed'') \<longleftrightarrow> is_closed self)
   \<and> (isl (fst (close self)) \<longleftrightarrow> is_closed self)
   \<and> (is_closed self \<longrightarrow> snd (close self) = self)
   \<and> (\<not> is_closed self
        \<longrightarrow> fst (close self) = Inr () \<and> snd (close self) = self\<lparr>attr_is_closed := True\<rparr>
            \<and> is_closed (snd (close self)))
   \<and> (is_closed self \<longrightarrow> is_closed (snd (call S7 url CONFIG read operation self)))
   \<and> (is_closed self \<longrightarrow> is_closed (run S7 url CONFIG read operations self))
   \<and> is_closed (run S7 url CONFIG read (Close # operations) self)
   \<and> \<not> is_closed (Backend_init cls settings)"
proof -
  have c1: "fst (close self) = Inl (BackendError ''Backend is already closed'') \<longleftrightarrow> is_closed self"
    by (simp add: close_def)
  have c2: "isl (fst (close self)) \<longleftrightarrow> is_closed self"
    by (simp add: close_def)
  have c3: "is_closed self \<longrightarrow> snd (close self) = self"
    by (simp add: close_def)
  have c4: "\<not> is_closed self
        \<longrightarrow> fst (close self) = Inr () \<and> snd (close self) = self\<lparr>attr_is_closed := True\<rparr>
            \<and> is_closed (snd (close self))"
    by (simp add: close_def is_closed_def)
  have c5: "is_closed self \<longrightarrow> is_closed (snd (call S7 url CONFIG read operation self))"
    using call_keeps_closed by blast
  have c6: "is_closed self \<longrightarrow> is_closed (run S7 url CONFIG read operations self)"
    using run_keeps_closed by blast
  have "is_closed (snd (call S7 url CONFIG read Close self))"
    by (simp add: call_def close_def is_closed_def)
  then have c7: "is_closed (run S7 url CONFIG read (Close # operations) self)"
    using run_keeps_closed by simp
  have c8: "\<not> is_closed (Backend_init cls settings)"
    by (simp add: Backend_init_def is_closed_def)
  from c1 c2 c3 c4 c5 c6 c7 c8 show ?thesis by blast
qed

text \<open>The theorem at a new instance, at the same instance closed, and at a run of six operations.\<close>

theorem close_is_terminal_witness:
  "\<not> is_closed (Backend_init ''MongoDBBackend'' ())
   \<and> close (Backend_init ''MongoDBBackend'' ())
       = (Inr (), \<lparr>class_name = ''MongoDBBackend'', attr_settings = (), attr_is_closed = True\<rparr>)
   \<and> is_closed \<lparr>class_name = ''MongoDBBackend'', attr_settings = (), attr_is_closed = True\<rparr>
   \<and> close \<lparr>class_name = ''MongoDBBackend'', attr_settings = (), attr_is_closed = True\<rparr>
       = (Inl (BackendError ''Backend is already closed''),
          \<lparr>class_name = ''MongoDBBackend'', attr_settings = (), attr_is_closed = True\<rparr>)
   \<and> is_closed (run soft7_stand_in Some default_settings (\<lambda>u. Inr None)
         [Close, Contains (Raw (PStr ''x'')), Is_closed, Abstract ''read'', Str, Repr]
         \<lparr>class_name = ''MongoDBBackend'', attr_settings = (), attr_is_closed = True\<rparr>)"
proof -
  let ?open = "Backend_init ''MongoDBBackend'' ()"
  let ?closed = "\<lparr>class_name = ''MongoDBBackend'', attr_settings = (), attr_is_closed = True\<rparr>"
  have o: "\<not> is_closed ?open" by (simp add: Backend_init_def is_closed_def)
  have c: "is_closed ?closed" by (simp add: is_closed_def)
  have u: "?open\<lparr>attr_is_closed := True\<rparr> = ?closed" by (simp add: Backend_init_def)
  have a: "fst (close ?open) = Inr () \<and> snd (close ?open) = ?open\<lparr>attr_is_closed := True\<rparr>
            \<and> is_closed (snd (close ?open))"
    using o close_is_terminal[where self = ?open, THEN conj_4] by blast
  have b: "fst (close ?closed) = Inl (BackendError ''Backend is already closed'')"
    using c close_is_terminal[where self = ?closed, THEN conj_1] by simp
  have d: "snd (close ?closed) = ?closed"
    using c close_is_terminal[where self = ?closed, THEN conj_3] by simp
  have e: "is_closed (run soft7_stand_in Some default_settings (\<lambda>u. Inr None)
         [Close, Contains (Raw (PStr ''x'')), Is_closed, Abstract ''read'', Str, Repr] ?closed)"
    using c close_is_terminal[where self = ?closed and ?S7.0 = soft7_stand_in and url = Some
        and CONFIG = default_settings and read = "\<lambda>u. Inr None"
        and operations = "[Close, Contains (Raw (PStr ''x'')), Is_closed, Abstract ''read'', Str, Repr]",
        THEN conj_6]
    by simp
  have p: "\<And>x :: (error + unit) \<times> unit Backend. x = (fst x, snd x)" by simp
  show ?thesis using o c a b d e u p[of "close ?open"] p[of "close ?closed"] by simp
qed

text \<open>
  Claim C7.  The claim asks that the containment check send a dictionary through the
  resolver and give \<open>False\<close>, never an error, for one that no class validates.  The
  code does not do so for a dictionary with the key \<^verbatim>\<open>return_errors\<close>: the stand-in for
  SOFT7 and SOFT5 both reject the dictionary that has this key only, so that the
  resolver would return the list of their errors for it; the containment check raises
  \<^verbatim>\<open>TypeError\<close> instead, as it does when the key is put in front of \<open>mixed_document\<close>,
  which SOFT5 accepts.
\<close>

theorem contains_raises_on_return_errors:
  "soft7_stand_in [(''return_errors'', PBool False)]
     = Inl (ValidationError [([Key ''properties''], model_type)])
   \<and> SOFT5Entity_validate Some default_settings [(''return_errors'', PBool False)]
     = Inl (ValidationError [([Key ''properties''], missing)])
   \<and> soft_entity soft7_stand_in Some default_settings True [(''return_errors'', PBool False)]
     = Inr (Errors [ValidationError [([Key ''properties''], model_type)],
                    ValidationError [([Key ''properties''], missing)]])
   \<and> Backend_contains soft7_stand_in Some default_settings read_one_record
        (Raw (PDict [(''return_errors'', PBool False)]))
     = Inl (TypeError multiple_values_message)
   \<and> Backend_contains soft7_stand_in Some default_settings read_one_record
        (Raw (PDict ((''return_errors'', PBool False) # mixed_document)))
     = Inl (TypeError multiple_values_message)"
proof -
  have a: "soft7_stand_in [(''return_errors'', PBool False)]
     = Inl (ValidationError [([Key ''properties''], model_type)])"
    by (simp add: soft7_stand_in_def)
  have b: "SOFT5Entity_validate Some default_settings [(''return_errors'', PBool False)]
     = Inl (ValidationError [([Key ''properties''], missing)])"
    by (simp add: validate_defs)
  have c: "soft_entity soft7_stand_in Some default_settings True [(''return_errors'', PBool False)]
     = Inr (Errors [ValidationError [([Key ''properties''], model_type)],
                    ValidationError [([Key ''properties''], missing)]])"
    using a b by (simp add: soft_entity_cases)
  have d: "Backend_contains soft7_stand_in Some default_settings read_one_record
        (Raw (PDict [(''return_errors'', PBool False)]))
     = Inl (TypeError multiple_values_message)"
    by (rule contains_return_errors_key[where v = "PBool False"]) simp
  have e: "Backend_contains soft7_stand_in Some default_settings read_one_record
        (Raw (PDict ((''return_errors'', PBool False) # mixed_document)))
     = Inl (TypeError multiple_values_message)"
    by (rule contains_return_errors_key[where v = "PBool False"]) simp
  show ?thesis using a b c d e by simp
qed

end
